theory Spec2Isabelle
  imports Complex_Main "HOL-Library.Word" "HOL-Library.Log_Nat"
begin

section \<open>Reading containers\<close>

text \<open>
  \<^verbatim>\<open>reduce_window.cc\<close> indexes \<^verbatim>\<open>ArrayRef\<close>s and \<^verbatim>\<open>SmallVector\<close>s with
  \<^verbatim>\<open>operator[]\<close> and takes \<^verbatim>\<open>front()\<close> of operand ranges.  Outside the container these
  reads are undefined in C++; the embedding makes that outcome a value, \<open>Inl OutOfBounds\<close>.
  Indices are \<^verbatim>\<open>int64_t\<close> in the source and \<open>int\<close> here.
\<close>

datatype error = OutOfBounds

definition at_index :: "'a list \<Rightarrow> int \<Rightarrow> error + 'a" where
  "at_index xs i =
     (if 0 \<le> i \<and> i < int (length xs) then Inr (xs ! nat i) else Inl OutOfBounds)"

definition front :: "'a list \<Rightarrow> error + 'a" where
  "front xs = (case xs of [] \<Rightarrow> Inl OutOfBounds | x # _ \<Rightarrow> Inr x)"

text \<open>A loop that fills a result element by element stops at the first undefined read.\<close>

fun collect :: "(error + 'a) list \<Rightarrow> error + 'a list" where
  "collect [] = Inr []"
| "collect (Inl e # rs) = Inl e"
| "collect (Inr x # rs) = (case collect rs of Inl e \<Rightarrow> Inl e | Inr xs \<Rightarrow> Inr (x # xs))"

section \<open>The IR the patterns read and build\<close>

datatype ElementType = FloatType | IntegerType

record ShapedType =
  getShape :: "int list"
  getElementType :: ElementType

definition getNumElements :: "ShapedType \<Rightarrow> int" where
  "getNumElements t = prod_list (getShape t)"

text \<open>
  A \<^verbatim>\<open>DenseFPElementsAttr\<close>, by the three queries the file makes of one: its number of
  elements, whether it is a splat, and its first element (\<^verbatim>\<open>getValues<APFloat>()[0]\<close>, which
  is \<^verbatim>\<open>getSplatValue<APFloat>()\<close> for a splat).  Float values are of an abstract type \<open>'f\<close>.
\<close>

datatype 'f DenseFPElementsAttr =
  DenseFPElementsAttr (attrNumElements: int) (isSplat: bool) (firstValue: 'f)

datatype 'f Attribute = DenseFP "'f DenseFPElementsAttr" | OtherAttr

text \<open>\<^verbatim>\<open>mhlo::ReduceWindowOp\<close>: result types, operands, attributes and the reduction body \<open>'r\<close>.\<close>

datatype ('v, 'r) ReduceWindowOp =
  ReduceWindowOp (getResultTypes: "ShapedType list") (getInputs: "'v list")
    (getInitValues: "'v list") (getWindowDimensions: "int list")
    (getWindowStrides: "int list") (getBaseDilations: "int list")
    (getWindowDilations: "int list") (getPadding: "(int \<times> int) list") (getBody: 'r)

datatype 'v TransposeOp = TransposeOp (getOperand: 'v) (getPermutation: "int list")

datatype 'v DivOp = DivOp (getLhs: 'v) (getRhs: 'v) (getDivType: ShapedType)

text \<open>\<^verbatim>\<open>TFL::AveragePool2DOp\<close>; its integer attributes are 32-bit (\<^verbatim>\<open>getI32IntegerAttr\<close>).\<close>

datatype 'v AveragePool2DOp =
  AveragePool2DOp (getInput: 'v) (getFilterHeight: "32 word") (getFilterWidth: "32 word")
    (getPoolPadding: string) (getStrideH: "32 word") (getStrideW: "32 word")
    (getFusedActivationFunction: string)

text \<open>A value has a type and, unless it is a block argument, the operation that defines it.\<close>

datatype ('f, 'r) Value =
  Value (getType: ShapedType) (getDefiningOp: "('f, 'r) Operation option")
and ('f, 'r) Operation =
    mhlo_constant "'f Attribute"
  | mhlo_transpose "('f, 'r) Value TransposeOp"
  | mhlo_broadcast_in_dim "('f, 'r) Value"
  | mhlo_reshape "('f, 'r) Value"
  | mhlo_reduce_window "(('f, 'r) Value, 'r) ReduceWindowOp"
  | mhlo_divide "('f, 'r) Value DivOp"
  | tfl_average_pool_2d "('f, 'r) Value AveragePool2DOp"
  | other_op "('f, 'r) Value list"

text \<open>
  \<^verbatim>\<open>matchPattern(val, m_Constant(&attr))\<close> with \<^verbatim>\<open>DenseFPElementsAttr attr\<close>: the value is
  defined by a constant whose attribute is a dense float attribute.
\<close>

definition m_Constant :: "('f, 'r) Value \<Rightarrow> 'f DenseFPElementsAttr option" where
  "m_Constant val =
     (case getDefiningOp val of
        Some (mhlo_constant (DenseFP a)) \<Rightarrow> Some a
      | _ \<Rightarrow> None)"

text \<open>
  The outcome of a pattern: \<^verbatim>\<open>notifyMatchFailure\<close> with its reason (the empty reason for a
  bare \<^verbatim>\<open>failure()\<close>), or \<^verbatim>\<open>success()\<close> after \<^verbatim>\<open>replaceOp\<close>, carrying the replacement.
\<close>

datatype 'a LogicalResult = failure string | success 'a

section \<open>Window descriptor and layout\<close>

text \<open>
  Modelled from the spec: the classes \<^verbatim>\<open>DimPadding\<close>, \<^verbatim>\<open>Layout\<close> and
  \<^verbatim>\<open>ReduceWindowView\<close>, declared in \<^verbatim>\<open>op_util_common.h\<close> and
  \<^verbatim>\<open>reduce_window_util.h\<close>, which the file includes.  The fields below are the accessors
  the file calls, with the spec's meaning: a padding is a (lo, hi) pair; a layout has a
  batch dimension (\<open>SpecialDim1\<close>), a channel dimension (\<open>SpecialDim2\<close>) and ordered spatial
  dimensions, and two layouts are equal iff the three agree; a descriptor has a rank and,
  per dimension, window sizes, strides, dilations and paddings.
\<close>

record DimPadding =
  Lo :: int
  Hi :: int

text \<open>Modelled from the spec: \<^verbatim>\<open>DimPadding::Trivial\<close>; "trivial" iff both are zero.\<close>

definition Trivial :: "DimPadding \<Rightarrow> bool" where
  "Trivial p = (Lo p = 0 \<and> Hi p = 0)"

record Layout =
  SpecialDim1 :: int
  SpecialDim2 :: int
  Spatials :: "int list"

text \<open>
  Modelled from the spec: \<^verbatim>\<open>Layout::Rank\<close>; a layout of a rank-N tensor has one batch axis,
  one channel axis and N-2 spatial axes.
\<close>

definition LayoutRank :: "Layout \<Rightarrow> int" where
  "LayoutRank l = int (length (Spatials l)) + 2"

record ReduceWindowView =
  Rank :: int
  WindowDims :: "int list"
  WindowStrides :: "int list"
  BaseDilations :: "int list"
  WindowDilations :: "int list"
  Paddings :: "DimPadding list"
  WindowSize :: int

text \<open>
  Modelled from the spec: the constructor \<^verbatim>\<open>ReduceWindowView(op)\<close>.  It exposes the node's
  attributes with no validation; the rank is the number of dimensions the window spans and
  \<open>WindowSize\<close> is the product of the window dimensions.
\<close>

definition ReduceWindowView :: "('v, 'r) ReduceWindowOp \<Rightarrow> ReduceWindowView" where
  "ReduceWindowView op =
     \<lparr>Rank = int (length (getWindowDimensions op)),
      WindowDims = getWindowDimensions op,
      WindowStrides = getWindowStrides op,
      BaseDilations = getBaseDilations op,
      WindowDilations = getWindowDilations op,
      Paddings = map (\<lambda>(lo, hi). \<lparr>Lo = lo, Hi = hi\<rparr>) (getPadding op),
      WindowSize = prod_list (getWindowDimensions op)\<rparr>"

text \<open>
  The spec's invariant of a descriptor: all its sequences have length exactly \<open>Rank\<close>.
\<close>

definition view_invariant :: "ReduceWindowView \<Rightarrow> bool" where
  "view_invariant v =
     (int (length (WindowDims v)) = Rank v \<and> int (length (WindowStrides v)) = Rank v \<and>
      int (length (BaseDilations v)) = Rank v \<and> int (length (WindowDilations v)) = Rank v \<and>
      int (length (Paddings v)) = Rank v)"

text \<open>The dimensions of a layout are physical dimensions of a rank-\<open>r\<close> tensor.\<close>

definition layout_within :: "Layout \<Rightarrow> int \<Rightarrow> bool" where
  "layout_within l r =
     (0 \<le> SpecialDim1 l \<and> SpecialDim1 l < r \<and> 0 \<le> SpecialDim2 l \<and> SpecialDim2 l < r \<and>
      list_all (\<lambda>d. 0 \<le> d \<and> d < r) (Spatials l))"

section \<open>Functions defined outside the file\<close>

text \<open>
  The file calls functions whose bodies are in other files of the repository or in the host
  IR.  They are parameters of the embedding:
  \<^item> \<open>GuessLayout\<close>: \<^verbatim>\<open>ReduceWindowView::GuessLayout\<close>;
  \<^item> \<open>IsSamePaddingOnDim\<close>: called as \<^verbatim>\<open>IsSamePaddingOnDim(dim_pad, out_dim, in_dim, dim_stride)\<close>;
  \<^item> \<open>MatchBinaryReduceFunction_AddOp\<close>: whether \<^verbatim>\<open>MatchBinaryReduceFunction<mhlo::AddOp>\<close>
    succeeds on a reduction body;
  \<^item> \<open>isZero\<close>: \<^verbatim>\<open>APFloat::isZero\<close>;
  \<^item> \<open>isExactlyValue\<close>: \<^verbatim>\<open>APFloat::isExactlyValue\<close> at the \<^verbatim>\<open>double\<close> converted from
    the given integer (the file passes \<^verbatim>\<open>WindowSize()\<close> and \<^verbatim>\<open>1.0\<close>);
  \<^item> \<open>inferTransposeType\<close>: the result type the builder infers for an \<^verbatim>\<open>mhlo::TransposeOp\<close>
    from the operand's type and the permutation.
\<close>

record ('f, 'r) Env =
  GuessLayout :: "ReduceWindowView \<Rightarrow> Layout option"
  IsSamePaddingOnDim :: "DimPadding \<Rightarrow> int \<Rightarrow> int \<Rightarrow> int \<Rightarrow> bool"
  MatchBinaryReduceFunction_AddOp :: "'r \<Rightarrow> bool"
  isZero :: "'f \<Rightarrow> bool"
  isExactlyValue :: "'f \<Rightarrow> int \<Rightarrow> bool"
  inferTransposeType :: "ShapedType \<Rightarrow> int list \<Rightarrow> ShapedType"

section \<open>The Support Filter and the small helpers\<close>

definition AreDilationsSupported :: "ReduceWindowView \<Rightarrow> bool" where
  "AreDilationsSupported op =
     (list_all (\<lambda>v. v = 1) (BaseDilations op) \<and> list_all (\<lambda>v. v = 1) (WindowDilations op))"

definition IsRankSupported :: "ReduceWindowView \<Rightarrow> bool" where
  "IsRankSupported op = (Rank op = 4)"

definition GetViewIfAttrsSupported ::
  "('f, 'r) Env \<Rightarrow> ('v, 'r) ReduceWindowOp \<Rightarrow> error + (ReduceWindowView \<times> Layout) option"
where
  "GetViewIfAttrsSupported E op =
     (let view = ReduceWindowView op in
      if \<not> IsRankSupported view then Inr None
      else if \<not> AreDilationsSupported view then Inr None
      else
        (case GuessLayout E view of
           None \<Rightarrow> Inr None
         | Some layout \<Rightarrow>
             (case at_index (Paddings view) (SpecialDim1 layout) of
                Inl e \<Rightarrow> Inl e
              | Inr batch_pad \<Rightarrow>
                  if \<not> Trivial batch_pad then Inr None
                  else
                    (case at_index (Paddings view) (SpecialDim2 layout) of
                       Inl e \<Rightarrow> Inl e
                     | Inr chan_pad \<Rightarrow>
                         if \<not> Trivial chan_pad then Inr None
                         else Inr (Some (view, layout))))))"

text \<open>\<^verbatim>\<open>std::optional<bool>\<close>: \<open>None\<close> is the "unknown" legality.\<close>

definition IsReduceWindowLegal :: "('v, 'r) ReduceWindowOp \<Rightarrow> bool option" where
  "IsReduceWindowLegal op = None"

definition IsDivideLegal :: "'v DivOp \<Rightarrow> bool option" where
  "IsDivideLegal op = None"

text \<open>\<^verbatim>\<open>llvm::seq<int64_t>(1, rank - 1)\<close> is the half-open range, \<open>[1..rank - 2]\<close>.\<close>

definition TFLNativePoolingLayout :: "int \<Rightarrow> Layout" where
  "TFLNativePoolingLayout rank =
     \<lparr>SpecialDim1 = 0, SpecialDim2 = rank - 1, Spatials = [1..rank - 2]\<rparr>"

definition IsCstFloatZero :: "('f, 'r) Env \<Rightarrow> ('f, 'r) Value \<Rightarrow> bool" where
  "IsCstFloatZero E val =
     (case m_Constant val of
        None \<Rightarrow> False
      | Some initial_value \<Rightarrow>
          attrNumElements initial_value = 1 \<and> isZero E (firstValue initial_value))"

definition Permute :: "int list \<Rightarrow> int list \<Rightarrow> error + int list" where
  "Permute data perm =
     collect (map (\<lambda>i. case at_index perm (int i) of
                          Inl e \<Rightarrow> Inl e
                        | Inr p \<Rightarrow> at_index data p)
                  [0..<length data])"

definition TransposeTensor ::
  "('f, 'r) Env \<Rightarrow> ('f, 'r) Value \<Rightarrow> int list \<Rightarrow> ('f, 'r) Value" where
  "TransposeTensor E tensor perm =
     Value (inferTransposeType E (getType tensor) perm)
           (Some (mhlo_transpose (TransposeOp tensor perm)))"

text \<open>An \<^verbatim>\<open>i64\<close> elements attribute is the list of its data.\<close>

definition BuildDenseI64 :: "int list \<Rightarrow> int list" where
  "BuildDenseI64 data = data"

definition GetInputAndInitIfValid ::
  "(('f, 'r) Value, 'r) ReduceWindowOp \<Rightarrow> error + (('f, 'r) Value \<times> ('f, 'r) Value) option"
where
  "GetInputAndInitIfValid op =
     (if length (getResultTypes op) \<noteq> 1 then Inr None
      else if length (getInputs op) > 1 then Inr None
      else if length (getInitValues op) > 1 then Inr None
      else
        (case front (getInitValues op) of
           Inl e \<Rightarrow> Inl e
         | Inr init_val \<Rightarrow>
             if getNumElements (getType init_val) \<noteq> 1 then Inr None
             else
               (case front (getInputs op) of
                  Inl e \<Rightarrow> Inl e
                | Inr input \<Rightarrow> Inr (Some (input, init_val)))))"

section \<open>Legality and registration\<close>

definition LegalizeReduceWindowMax_matchAndRewrite ::
  "(('f, 'r) Value, 'r) ReduceWindowOp \<Rightarrow> ('f, 'r) Value LogicalResult" where
  "LegalizeReduceWindowMax_matchAndRewrite op = failure []"

datatype Pattern = LegalizeAvgPool | RelayoutReduceWindow | LegalizeReduceWindowMax

text \<open>
  A \<^verbatim>\<open>ConversionTarget\<close>, as far as the file touches it: the dynamic-legality callbacks
  registered for \<^verbatim>\<open>mhlo::ReduceWindowOp\<close> and \<^verbatim>\<open>mhlo::DivOp\<close>.
\<close>

record ('f, 'r) ConversionTarget =
  reduce_window_legality :: "((('f, 'r) Value, 'r) ReduceWindowOp \<Rightarrow> bool option) option"
  divide_legality :: "(('f, 'r) Value DivOp \<Rightarrow> bool option) option"

definition PopulateLegalizeReduceWindowPatterns ::
  "Pattern list \<Rightarrow> ('f, 'r) ConversionTarget \<Rightarrow> Pattern list \<times> ('f, 'r) ConversionTarget"
where
  "PopulateLegalizeReduceWindowPatterns patterns target =
     (patterns @ [LegalizeAvgPool],
      target\<lparr>reduce_window_legality := Some IsReduceWindowLegal,
             divide_legality := Some IsDivideLegal\<rparr>)"

definition PopulatePrepareReduceWindowPatterns :: "Pattern list \<Rightarrow> Pattern list" where
  "PopulatePrepareReduceWindowPatterns patterns = patterns @ [RelayoutReduceWindow]"

text \<open>
  The driver's question to a target about an operation: the registered callback's answer,
  or \<open>None\<close> (unknown) when the kind has no callback.
\<close>

definition isLegal :: "('f, 'r) ConversionTarget \<Rightarrow> ('f, 'r) Operation \<Rightarrow> bool option" where
  "isLegal target op =
     (case op of
        mhlo_reduce_window rw \<Rightarrow>
          (case reduce_window_legality target of None \<Rightarrow> None | Some f \<Rightarrow> f rw)
      | mhlo_divide d \<Rightarrow>
          (case divide_legality target of None \<Rightarrow> None | Some f \<Rightarrow> f d)
      | _ \<Rightarrow> None)"

section \<open>Layout permutations\<close>

text \<open>
  Modelled from the spec: \<^verbatim>\<open>Layout::GetPermForReLayout\<close> and \<^verbatim>\<open>Layout::PermuteShape\<close>
  (the spec's \<open>permutation_to\<close> and \<open>permute_shape\<close>) of \<^verbatim>\<open>op_util_common.h\<close>.  A layout
  gives each physical dimension a semantic role: batch, channel, or the k-th spatial axis.
  "For each target physical dimension d, find the physical dimension in self that carries
  the same semantic role as target's dimension d."  A dimension without a role, or a role
  the other layout lacks, has no answer: the result is \<open>Inl OutOfBounds\<close>.
\<close>

datatype Role = Batch | Channel | Spatial nat

fun FindSpatial :: "int \<Rightarrow> int list \<Rightarrow> nat option" where
  "FindSpatial d [] = None"
| "FindSpatial d (s # ss) = (if s = d then Some 0 else map_option Suc (FindSpatial d ss))"

definition role_of_dim :: "Layout \<Rightarrow> int \<Rightarrow> Role option" where
  "role_of_dim l d =
     (if d = SpecialDim1 l then Some Batch
      else if d = SpecialDim2 l then Some Channel
      else map_option Spatial (FindSpatial d (Spatials l)))"

definition dim_of_role :: "Layout \<Rightarrow> Role \<Rightarrow> int option" where
  "dim_of_role l r =
     (case r of
        Batch \<Rightarrow> Some (SpecialDim1 l)
      | Channel \<Rightarrow> Some (SpecialDim2 l)
      | Spatial k \<Rightarrow> (if k < length (Spatials l) then Some (Spatials l ! k) else None))"

definition GetPermForReLayout :: "Layout \<Rightarrow> Layout \<Rightarrow> error + int list" where
  "GetPermForReLayout self to_layout =
     collect (map (\<lambda>d. case role_of_dim to_layout d of
                          None \<Rightarrow> Inl OutOfBounds
                        | Some r \<Rightarrow>
                            (case dim_of_role self r of
                               None \<Rightarrow> Inl OutOfBounds
                             | Some s \<Rightarrow> Inr s))
                  [0..LayoutRank to_layout - 1])"

text \<open>Applying a permutation to a shape: entry \<open>i\<close> of the result is entry \<open>perm[i]\<close>.\<close>

definition PermuteShape :: "Layout \<Rightarrow> Layout \<Rightarrow> int list \<Rightarrow> error + int list" where
  "PermuteShape self to_layout shape =
     (case GetPermForReLayout self to_layout of
        Inl e \<Rightarrow> Inl e
      | Inr perm \<Rightarrow> collect (map (\<lambda>val. at_index shape val) perm))"

text \<open>
  The layouts of the spec's data model: batch, channel and spatial dimensions are distinct
  and are physical dimensions of a tensor of the layout's rank.
\<close>

definition layout_wf :: "Layout \<Rightarrow> bool" where
  "layout_wf l =
     (distinct (SpecialDim1 l # SpecialDim2 l # Spatials l) \<and> layout_within l (LayoutRank l))"

text \<open>
  A shape laid out as \<open>l\<close>: the batch size \<open>b\<close>, the channel size \<open>c\<close> and the spatial sizes
  \<open>ss\<close> (in semantic order) stand at the physical dimensions \<open>l\<close> gives them.
\<close>

definition laid_out :: "Layout \<Rightarrow> int \<Rightarrow> int \<Rightarrow> int list \<Rightarrow> int list \<Rightarrow> bool" where
  "laid_out l b c ss shape =
     (int (length shape) = LayoutRank l \<and> length ss = length (Spatials l) \<and>
      at_index shape (SpecialDim1 l) = Inr b \<and> at_index shape (SpecialDim2 l) = Inr c \<and>
      list_all (\<lambda>k. at_index shape (Spatials l ! k) = Inr (ss ! k)) [0..<length ss])"

section \<open>RelayoutReduceWindow\<close>

text \<open>
  The loop over \<^verbatim>\<open>new_paddings\<close>: row \<open>i\<close> of the new \<open>[n, 2]\<close> attribute is the (lo, hi) pair
  of \<^verbatim>\<open>paddings[perm_for_inputs[i]]\<close>.
\<close>

definition permute_paddings :: "DimPadding list \<Rightarrow> int list \<Rightarrow> error + (int \<times> int) list" where
  "permute_paddings paddings perm_for_inputs =
     collect (map (\<lambda>i. case at_index perm_for_inputs (int i) of
                          Inl e \<Rightarrow> Inl e
                        | Inr p \<Rightarrow>
                            (case at_index paddings p of
                               Inl e \<Rightarrow> Inl e
                             | Inr dim_pad \<Rightarrow> Inr (Lo dim_pad, Hi dim_pad)))
                  [0..<length paddings])"

definition RelayoutReduceWindow_matchAndRewrite ::
  "('f, 'r) Env \<Rightarrow> (('f, 'r) Value, 'r) ReduceWindowOp \<Rightarrow>
   error + ('f, 'r) Value LogicalResult"
where
  "RelayoutReduceWindow_matchAndRewrite E op =
     (case GetViewIfAttrsSupported E op of
        Inl e \<Rightarrow> Inl e
      | Inr None \<Rightarrow> Inr (failure ''Reduce window attributes not supported.'')
      | Inr (Some (view, layout)) \<Rightarrow>
     (case GetInputAndInitIfValid op of
        Inl e \<Rightarrow> Inl e
      | Inr None \<Rightarrow>
          Inr (failure ''Reduce window has wrong number of inputs or init values.'')
      | Inr (Some (input, init_val)) \<Rightarrow>
     (let target_layout = TFLNativePoolingLayout (Rank view) in
      if layout = target_layout
      then Inr (failure ''Reduce window does not need layout change'')
      else
     (case GetPermForReLayout layout target_layout of
        Inl e \<Rightarrow> Inl e
      | Inr perm_for_inputs \<Rightarrow>
     (case permute_paddings (Paddings view) perm_for_inputs of
        Inl e \<Rightarrow> Inl e
      | Inr new_paddings \<Rightarrow>
     (case Permute (WindowDims view) perm_for_inputs of
        Inl e \<Rightarrow> Inl e
      | Inr new_window_dims \<Rightarrow>
     (case Permute (WindowStrides view) perm_for_inputs of
        Inl e \<Rightarrow> Inl e
      | Inr new_window_strides \<Rightarrow>
     (case GetPermForReLayout target_layout layout of
        Inl e \<Rightarrow> Inl e
      | Inr perm_for_outputs \<Rightarrow>
     (case at_index (getResultTypes op) 0 of
        Inl e \<Rightarrow> Inl e
      | Inr cur_out_type \<Rightarrow>
     (case PermuteShape layout target_layout (getShape cur_out_type) of
        Inl e \<Rightarrow> Inl e
      | Inr new_rw_out_shape \<Rightarrow>
     (let new_out_type = cur_out_type\<lparr>getShape := new_rw_out_shape\<rparr>;
          new_input = TransposeTensor E input perm_for_inputs;
          new_rw = ReduceWindowOp [new_out_type] [new_input] [init_val]
                     (BuildDenseI64 new_window_dims) (BuildDenseI64 new_window_strides)
                     (BuildDenseI64 (BaseDilations view))
                     (BuildDenseI64 (WindowDilations view)) new_paddings (getBody op);
          new_output = TransposeTensor E (Value new_out_type (Some (mhlo_reduce_window new_rw)))
                         perm_for_outputs
      in Inr (success new_output))))))))))))"

section \<open>LegalizeAvgPool\<close>

text \<open>The conversion of an \<^verbatim>\<open>int64_t\<close> to \<^verbatim>\<open>int32_t\<close> keeps the low 32 bits.\<close>

definition to_int32 :: "int \<Rightarrow> 32 word" where
  "to_int32 v = word_of_int v"

definition ReplaceWithAvgPool ::
  "('f, 'r) Env \<Rightarrow> ('f, 'r) Value DivOp \<Rightarrow> ('f, 'r) Value \<Rightarrow> ReduceWindowView \<Rightarrow> string \<Rightarrow>
   ('f, 'r) Value TransposeOp option \<Rightarrow> error + ('f, 'r) Value"
where
  "ReplaceWithAvgPool E op rw_lhs_input lhs_view padding opt_final_tpose =
     (let out_type = (case opt_final_tpose of
                        Some tpose \<Rightarrow> getType (getOperand tpose)
                      | None \<Rightarrow> getDivType op) in
      case at_index (WindowDims lhs_view) 1 of
        Inl e \<Rightarrow> Inl e
      | Inr filter_h \<Rightarrow>
     (case at_index (WindowDims lhs_view) 2 of
        Inl e \<Rightarrow> Inl e
      | Inr filter_w \<Rightarrow>
     (case at_index (WindowStrides lhs_view) 1 of
        Inl e \<Rightarrow> Inl e
      | Inr stride_h \<Rightarrow>
     (case at_index (WindowStrides lhs_view) 2 of
        Inl e \<Rightarrow> Inl e
      | Inr stride_w \<Rightarrow>
     (let final_op =
            Value out_type
              (Some (tfl_average_pool_2d
                 (AveragePool2DOp rw_lhs_input (to_int32 filter_h) (to_int32 filter_w) padding
                    (to_int32 stride_h) (to_int32 stride_w) ''NONE'')))
      in Inr (case opt_final_tpose of
                Some tpose \<Rightarrow>
                  Value (inferTransposeType E (getType final_op) (getPermutation tpose))
                    (Some (mhlo_transpose (TransposeOp final_op (getPermutation tpose))))
              | None \<Rightarrow> final_op))))))"

text \<open>
  \<^verbatim>\<open>RecursivelyWalkUp<Tys...>\<close>; the file instantiates \<open>Tys\<close> with transpose, broadcast and
  reshape operations only, each of which has its operand 0.
\<close>

datatype OpTy = BroadcastInDimOpTy | ReshapeOpTy | TransposeOpTy

fun RecursivelyWalkUp :: "OpTy list \<Rightarrow> ('f, 'r) Value \<Rightarrow> ('f, 'r) Value" where
  "RecursivelyWalkUp Tys (Value t (Some (mhlo_transpose (TransposeOp x p)))) =
     (if TransposeOpTy \<in> set Tys then RecursivelyWalkUp Tys x
      else Value t (Some (mhlo_transpose (TransposeOp x p))))"
| "RecursivelyWalkUp Tys (Value t (Some (mhlo_broadcast_in_dim x))) =
     (if BroadcastInDimOpTy \<in> set Tys then RecursivelyWalkUp Tys x
      else Value t (Some (mhlo_broadcast_in_dim x)))"
| "RecursivelyWalkUp Tys (Value t (Some (mhlo_reshape x))) =
     (if ReshapeOpTy \<in> set Tys then RecursivelyWalkUp Tys x
      else Value t (Some (mhlo_reshape x)))"
| "RecursivelyWalkUp Tys v = v"

text \<open>
  The loop that sets \<^verbatim>\<open>tfl_padding\<close>, over the dimensions \<open>dims\<close> still to visit; \<open>None\<close> is
  the match failure "Padding is not same or valid.".  Each round reads the dimension's
  padding, stride, input size and output size before it looks at them.
\<close>

fun tfl_padding_loop ::
  "('f, 'r) Env \<Rightarrow> ReduceWindowView \<Rightarrow> int list \<Rightarrow> int list \<Rightarrow> int list \<Rightarrow> string \<Rightarrow>
   error + string option"
where
  "tfl_padding_loop E rw_lhs_view in_shape out_shape [] tfl_padding = Inr (Some tfl_padding)"
| "tfl_padding_loop E rw_lhs_view in_shape out_shape (i # dims) tfl_padding =
     (case at_index (Paddings rw_lhs_view) i of
        Inl e \<Rightarrow> Inl e
      | Inr dim_pad \<Rightarrow>
     (case at_index (WindowStrides rw_lhs_view) i of
        Inl e \<Rightarrow> Inl e
      | Inr dim_stride \<Rightarrow>
     (case at_index in_shape i of
        Inl e \<Rightarrow> Inl e
      | Inr in_dim \<Rightarrow>
     (case at_index out_shape i of
        Inl e \<Rightarrow> Inl e
      | Inr out_dim \<Rightarrow>
          if Trivial dim_pad
          then tfl_padding_loop E rw_lhs_view in_shape out_shape dims tfl_padding
          else if \<not> IsSamePaddingOnDim E dim_pad out_dim in_dim dim_stride then Inr None
          else tfl_padding_loop E rw_lhs_view in_shape out_shape dims ''SAME''))))"

text \<open>
  "parse and validate reduce window lhs": the part of \<open>LegalizeAvgPool::matchAndRewrite\<close>
  before the two cases.  \<open>opt_final_tpose_of\<close> is the transpose that directly defines the
  left operand, if one does.  On success \<open>match_lhs\<close> yields what the cases use: the
  remembered transpose, the numerator reduce-window, its view, its input and the padding
  mode.
\<close>

definition opt_final_tpose_of :: "('f, 'r) Value \<Rightarrow> ('f, 'r) Value TransposeOp option" where
  "opt_final_tpose_of div_lhs =
     (case getDefiningOp div_lhs of
        Some (mhlo_transpose tpose) \<Rightarrow> Some tpose
      | _ \<Rightarrow> None)"

definition match_lhs ::
  "('f, 'r) Env \<Rightarrow> ('f, 'r) Value DivOp \<Rightarrow>
   error + (('f, 'r) Value TransposeOp option \<times> (('f, 'r) Value, 'r) ReduceWindowOp \<times>
            ReduceWindowView \<times> ('f, 'r) Value \<times> string) LogicalResult"
where
  "match_lhs E div_op =
     (let div_lhs = getLhs div_op;
          opt_final_tpose = opt_final_tpose_of div_lhs;
          rw_lhs_val = RecursivelyWalkUp [TransposeOpTy] div_lhs
      in
      case getDefiningOp rw_lhs_val of
        Some (mhlo_reduce_window rw_lhs) \<Rightarrow>
     (case GetViewIfAttrsSupported E rw_lhs of
        Inl e \<Rightarrow> Inl e
      | Inr None \<Rightarrow> Inr (failure ''Lhs rw is not valid.'')
      | Inr (Some (rw_lhs_view, rw_lhs_layout)) \<Rightarrow>
          if Rank rw_lhs_view \<noteq> 4 then Inr (failure ''Not a 2d pooling operator.'')
          else if rw_lhs_layout \<noteq> TFLNativePoolingLayout (LayoutRank rw_lhs_layout)
          then Inr (failure ''Lhs reduce window not tfl standard layout.'')
          else
     (case GetInputAndInitIfValid rw_lhs of
        Inl e \<Rightarrow> Inl e
      | Inr None \<Rightarrow>
          Inr (failure ''Lhs reduce window has wrong number of inputs or init values.'')
      | Inr (Some (rw_lhs_input, rw_lhs_init_val)) \<Rightarrow>
          if \<not> MatchBinaryReduceFunction_AddOp E (getBody rw_lhs)
          then Inr (failure ''Failed to match rw lhs binary func.'')
          else
     (case at_index (getResultTypes rw_lhs) 0 of
        Inl e \<Rightarrow> Inl e
      | Inr rw_lhs_type \<Rightarrow>
          if getElementType rw_lhs_type \<noteq> FloatType
          then Inr (failure ''Reduce window lhs most be float type.'')
          else if \<not> IsCstFloatZero E rw_lhs_init_val
          then Inr (failure ''Reduce window lhs init value is not zero.'')
          else
     (case tfl_padding_loop E rw_lhs_view (getShape (getType rw_lhs_input))
             (getShape rw_lhs_type) [1..Rank rw_lhs_view - 2] ''VALID'' of
        Inl e \<Rightarrow> Inl e
      | Inr None \<Rightarrow> Inr (failure ''Padding is not same or valid.'')
      | Inr (Some tfl_padding) \<Rightarrow>
          Inr (success (opt_final_tpose, rw_lhs, rw_lhs_view, rw_lhs_input, tfl_padding))))))
      | _ \<Rightarrow> Inr (failure ''Could not match lhs of div on reduce window.''))"

text \<open>
  "case 1: rhs is splat const with val == window_size".  \<open>None\<close>: the right operand is not
  a float constant and control leaves the block; \<open>Some r\<close>: the block returns \<open>r\<close>.
\<close>

definition match_rhs_splat_const ::
  "('f, 'r) Env \<Rightarrow> ('f, 'r) Value DivOp \<Rightarrow> ('f, 'r) Value TransposeOp option \<Rightarrow>
   ReduceWindowView \<Rightarrow> ('f, 'r) Value \<Rightarrow> string \<Rightarrow>
   (error + ('f, 'r) Value LogicalResult) option"
where
  "match_rhs_splat_const E div_op opt_final_tpose rw_lhs_view rw_lhs_input tfl_padding =
     (let div_rhs = RecursivelyWalkUp [BroadcastInDimOpTy, TransposeOpTy] (getRhs div_op) in
      case m_Constant div_rhs of
        None \<Rightarrow> None
      | Some divisor \<Rightarrow>
          Some (if \<not> isSplat divisor then Inr (failure [])
                else if \<not> isExactlyValue E (firstValue divisor) (WindowSize rw_lhs_view)
                then Inr (failure ''Rhs splat const is not equal to window size.'')
                else if tfl_padding \<noteq> ''VALID''
                then Inr (failure
                  ''Matching on rhs splat const where rw lhs has non-trivial padding.'')
                else
                  (case ReplaceWithAvgPool E div_op rw_lhs_input rw_lhs_view tfl_padding
                          opt_final_tpose of
                     Inl e \<Rightarrow> Inl e
                   | Inr final_op \<Rightarrow> Inr (success final_op))))"

text \<open>"case 2: rhs is another reduce window over 1's with same config as lhs".\<close>

definition match_rhs_reduce_window ::
  "('f, 'r) Env \<Rightarrow> ('f, 'r) Value DivOp \<Rightarrow> ('f, 'r) Value TransposeOp option \<Rightarrow>
   (('f, 'r) Value, 'r) ReduceWindowOp \<Rightarrow> ReduceWindowView \<Rightarrow> ('f, 'r) Value \<Rightarrow> string \<Rightarrow>
   error + ('f, 'r) Value LogicalResult"
where
  "match_rhs_reduce_window E div_op opt_final_tpose rw_lhs rw_lhs_view rw_lhs_input
       tfl_padding =
     (let divisor = RecursivelyWalkUp [BroadcastInDimOpTy, ReshapeOpTy, TransposeOpTy]
                      (getRhs div_op) in
      case getDefiningOp divisor of
        Some (mhlo_reduce_window rw_rhs) \<Rightarrow>
     (case GetViewIfAttrsSupported E rw_rhs of
        Inl e \<Rightarrow> Inl e
      | Inr None \<Rightarrow> Inr (failure ''Rhs rw is not valid.'')
      | Inr (Some (rw_rhs_view, rw_rhs_layout)) \<Rightarrow>
          if rw_rhs_layout \<noteq> TFLNativePoolingLayout (LayoutRank rw_rhs_layout)
          then Inr (failure ''Rhs reduce window not tfl standard layout.'')
          else if \<not> MatchBinaryReduceFunction_AddOp E (getBody rw_rhs)
          then Inr (failure ''Rhs rw body function is not an add op.'')
          else
     (case GetInputAndInitIfValid rw_rhs of
        Inl e \<Rightarrow> Inl e
      | Inr None \<Rightarrow>
          Inr (failure ''Rhs reduce window has wrong number of inputs or init values.'')
      | Inr (Some (rw_rhs_input, rw_rhs_init_val)) \<Rightarrow>
          if \<not> IsCstFloatZero E rw_rhs_init_val
          then Inr (failure ''Rhs rw init vals is not zero.'')
          else
     (case m_Constant (RecursivelyWalkUp [BroadcastInDimOpTy, TransposeOpTy] rw_rhs_input) of
        None \<Rightarrow> Inr (failure ''Rw rhs input is not splat of 1.0.'')
      | Some rhs_input_data \<Rightarrow>
          if \<not> isSplat rhs_input_data \<or> \<not> isExactlyValue E (firstValue rhs_input_data) 1
          then Inr (failure ''Rw rhs input is not splat of 1.0.'')
          else if getWindowDimensions rw_lhs \<noteq> getWindowDimensions rw_rhs \<or>
                  getWindowStrides rw_lhs \<noteq> getWindowStrides rw_rhs \<or>
                  getPadding rw_lhs \<noteq> getPadding rw_rhs
          then Inr (failure ''Lhs rw and Rhs rw do not have the same config.'')
          else
            (case ReplaceWithAvgPool E div_op rw_lhs_input rw_lhs_view tfl_padding
                    opt_final_tpose of
               Inl e \<Rightarrow> Inl e
             | Inr final_op \<Rightarrow> Inr (success final_op)))))
      | _ \<Rightarrow> Inr (failure ''Rhs of div op is not a reduce window.''))"

definition LegalizeAvgPool_matchAndRewrite ::
  "('f, 'r) Env \<Rightarrow> ('f, 'r) Value DivOp \<Rightarrow> error + ('f, 'r) Value LogicalResult"
where
  "LegalizeAvgPool_matchAndRewrite E div_op =
     (case match_lhs E div_op of
        Inl e \<Rightarrow> Inl e
      | Inr (failure reason) \<Rightarrow> Inr (failure reason)
      | Inr (success (opt_final_tpose, rw_lhs, rw_lhs_view, rw_lhs_input, tfl_padding)) \<Rightarrow>
          (case match_rhs_splat_const E div_op opt_final_tpose rw_lhs_view rw_lhs_input
                  tfl_padding of
             Some r \<Rightarrow> r
           | None \<Rightarrow>
               match_rhs_reduce_window E div_op opt_final_tpose rw_lhs rw_lhs_view
                 rw_lhs_input tfl_padding))"

section \<open>Auxiliary notions for the statements\<close>

text \<open>
  On well-formed layouts the permutation has a closed form: the dimension of \<open>self\<close> with
  the role of dimension \<open>d\<close> of \<open>to_layout\<close>.
\<close>

definition relayout_dim :: "Layout \<Rightarrow> Layout \<Rightarrow> int \<Rightarrow> int" where
  "relayout_dim self to_layout d = the (dim_of_role self (the (role_of_dim to_layout d)))"

definition layout_dims :: "Layout \<Rightarrow> int list" where
  "layout_dims l = SpecialDim1 l # SpecialDim2 l # Spatials l"

text \<open>
  Modelled from the spec: the same-padding relation that \<^verbatim>\<open>IsSamePaddingOnDim\<close> decides; the
  function is declared outside the file.  In the spec's words: "output_dim ==
  ceil(input_dim / stride) and the given (lo,hi) pad amounts are exactly those produced by
  the standard same-padding formula for (input_dim, output_dim, stride, window_dim)".  The
  standard formula pads \<open>max ((output_dim - 1) * stride + window_dim - input_dim) 0\<close> in total,
  half of it (rounded down) before.
\<close>

definition same_padding_spec :: "int \<Rightarrow> int \<Rightarrow> int \<Rightarrow> int \<Rightarrow> DimPadding \<Rightarrow> bool" where
  "same_padding_spec input_dim output_dim stride window_dim pad =
     (output_dim = (input_dim + stride - 1) div stride \<and>
      (let total = max ((output_dim - 1) * stride + window_dim - input_dim) 0
       in Lo pad = total div 2 \<and> Hi pad = total - total div 2))"

text \<open>
  What the padding loop reads for dimension \<open>i\<close> of a numerator with descriptor \<open>v\<close>, input
  shape \<open>ins\<close> and output shape \<open>outs\<close>: whether the padding is trivial, whether
  \<open>IsSamePaddingOnDim\<close> accepts it (the call passes the padding, the output size, the input
  size and the stride), and whether the spec's relation holds of it for the dimension's
  window size.
\<close>

definition dim_trivial :: "ReduceWindowView \<Rightarrow> int \<Rightarrow> bool" where
  "dim_trivial v i = Trivial (Paddings v ! nat i)"

definition dim_accepted ::
  "('f, 'r) Env \<Rightarrow> ReduceWindowView \<Rightarrow> int list \<Rightarrow> int list \<Rightarrow> int \<Rightarrow> bool"
where
  "dim_accepted E v ins outs i =
     IsSamePaddingOnDim E (Paddings v ! nat i) (outs ! nat i) (ins ! nat i)
       (WindowStrides v ! nat i)"


text \<open>Whether a value is the result of an average-pool node.\<close>

definition defined_by_average_pool :: "('f, 'r) Value \<Rightarrow> bool" where
  "defined_by_average_pool v =
     (case getDefiningOp v of Some (tfl_average_pool_2d p) \<Rightarrow> True | _ \<Rightarrow> False)"

section \<open>Concrete nodes\<close>

text \<open>
  An instance of the outside functions for the closed examples.  Tensors hold
  single-precision floats, written as the reals they denote; a reduction body is one of two
  shapes; the layout guess recognises channel-last and channel-first windows by their unit
  window dimensions and strides; a transpose permutes the shape.
\<close>

datatype Body = AddBody | MaxBody

definition ex_GuessLayout :: "ReduceWindowView \<Rightarrow> Layout option" where
  "ex_GuessLayout v =
     (let simple = map (\<lambda>(d, s). d = 1 \<and> s = 1) (zip (WindowDims v) (WindowStrides v)) in
      if length (filter id simple) < 2 then None
      else if hd simple \<and> last simple then Some (TFLNativePoolingLayout (Rank v))
      else if hd simple \<and> hd (tl simple)
      then Some \<lparr>SpecialDim1 = 0, SpecialDim2 = 1, Spatials = [2..Rank v - 1]\<rparr>
      else None)"

text \<open>
  Modelled from the spec: \<^verbatim>\<open>IsSamePaddingOnDim\<close>, declared outside the file, for the examples.
  The call passes no window size, so the instance checks what its four arguments decide of
  the spec's relation: the output size is \<open>ceil(input / stride)\<close>, and the pads split their
  total as the standard formula does, half of it (rounded down) before.
\<close>

definition ex_IsSamePaddingOnDim :: "DimPadding \<Rightarrow> int \<Rightarrow> int \<Rightarrow> int \<Rightarrow> bool" where
  "ex_IsSamePaddingOnDim pad out_dim in_dim stride =
     (out_dim = (in_dim + stride - 1) div stride \<and>
      Lo pad = (Lo pad + Hi pad) div 2)"

text \<open>
  \<^verbatim>\<open>isExactlyValue(double)\<close> on a single-precision value: the 64-bit integer is converted to
  a \<^verbatim>\<open>double\<close> (53 significant bits), the \<^verbatim>\<open>double\<close> to single precision (24 significant
  bits), each time to the nearest value, ties to even, and the result is compared with the
  value.  \<open>round_to_precision p n\<close> is the nearest integer to \<open>n\<close> with \<open>p\<close> significant bits.
\<close>

definition round_to_precision :: "nat \<Rightarrow> int \<Rightarrow> int" where
  "round_to_precision p n =
     (if \<bar>n\<bar> < 2 ^ p then n
      else (let e = nat (bitlen \<bar>n\<bar>) - p;
                q = \<bar>n\<bar> div 2 ^ e;
                r = \<bar>n\<bar> mod 2 ^ e;
                q' = (if 2 ^ e < 2 * r \<or> (2 * r = 2 ^ e \<and> odd q) then q + 1 else q)
            in sgn n * (q' * 2 ^ e)))"

definition ex_isExactlyValue :: "real \<Rightarrow> int \<Rightarrow> bool" where
  "ex_isExactlyValue x n = (x = of_int (round_to_precision 24 (round_to_precision 53 n)))"

definition ex_Env :: "(real, Body) Env" where
  "ex_Env =
     \<lparr>GuessLayout = ex_GuessLayout,
      IsSamePaddingOnDim = ex_IsSamePaddingOnDim,
      MatchBinaryReduceFunction_AddOp = (\<lambda>b. b = AddBody),
      isZero = (\<lambda>x. x = 0),
      isExactlyValue = ex_isExactlyValue,
      inferTransposeType = (\<lambda>t perm. t\<lparr>getShape := map (\<lambda>p. getShape t ! nat p) perm\<rparr>)\<rparr>"

definition f32 :: "int list \<Rightarrow> ShapedType" where
  "f32 shape = \<lparr>getShape = shape, getElementType = FloatType\<rparr>"

definition splat_const :: "int list \<Rightarrow> real \<Rightarrow> (real, Body) Value" where
  "splat_const shape x =
     Value (f32 shape) (Some (mhlo_constant (DenseFP (DenseFPElementsAttr (prod_list shape) True x))))"

text \<open>A graph input of shape \<open>[1, 8, 8, 3]\<close> (batch, height, width, channel).\<close>

definition ex_input :: "(real, Body) Value" where
  "ex_input = Value (f32 [1, 8, 8, 3]) None"

text \<open>The spec's example: window \<open>[1,3,3,1]\<close>, strides \<open>[1,2,2,1]\<close>, zero init, no padding.\<close>

definition ex_rw :: "((real, Body) Value, Body) ReduceWindowOp" where
  "ex_rw = ReduceWindowOp [f32 [1, 3, 3, 3]] [ex_input] [splat_const [] 0]
             [1, 3, 3, 1] [1, 2, 2, 1] [1, 1, 1, 1] [1, 1, 1, 1]
             [(0, 0), (0, 0), (0, 0), (0, 0)] AddBody"

definition ex_div_const :: "(real, Body) Value DivOp" where
  "ex_div_const =
     DivOp (Value (f32 [1, 3, 3, 3]) (Some (mhlo_reduce_window ex_rw)))
           (Value (f32 [1, 3, 3, 3]) (Some (mhlo_broadcast_in_dim (splat_const [] 9))))
           (f32 [1, 3, 3, 3])"

text \<open>Window \<open>[1,3,3,1]\<close>, stride 1, padding (1,1) on both spatial dimensions: 8 in, 8 out.\<close>

definition ex_rw_same :: "(real, Body) Value \<Rightarrow> ((real, Body) Value, Body) ReduceWindowOp" where
  "ex_rw_same x = ReduceWindowOp [f32 [1, 8, 8, 3]] [x] [splat_const [] 0]
             [1, 3, 3, 1] [1, 1, 1, 1] [1, 1, 1, 1] [1, 1, 1, 1]
             [(0, 0), (1, 1), (1, 1), (0, 0)] AddBody"

definition ex_div_ones :: "(real, Body) Value DivOp" where
  "ex_div_ones =
     DivOp (Value (f32 [1, 8, 8, 3]) (Some (mhlo_reduce_window (ex_rw_same ex_input))))
           (Value (f32 [1, 8, 8, 3])
              (Some (mhlo_reduce_window (ex_rw_same (splat_const [1, 8, 8, 3] 1)))))
           (f32 [1, 8, 8, 3])"

text \<open>
  A division by a splat 8.0, which is not the element count 9 of the window of \<open>ex_rw\<close>.
\<close>

definition ex_div_const8 :: "(real, Body) Value DivOp" where
  "ex_div_const8 =
     DivOp (Value (f32 [1, 3, 3, 3]) (Some (mhlo_reduce_window ex_rw)))
           (splat_const [1, 3, 3, 3] 8)
           (f32 [1, 3, 3, 3])"

text \<open>
  The same window on a five-channel input, \<open>[1, 8, 8, 5]\<close> to \<open>[1, 3, 3, 5]\<close>, whose result
  reaches the division through one transpose to channel-first, \<open>[1, 5, 3, 3]\<close>.
\<close>

definition tp_input :: "(real, Body) Value" where
  "tp_input = Value (f32 [1, 8, 8, 5]) None"

definition tp_rw :: "((real, Body) Value, Body) ReduceWindowOp" where
  "tp_rw = ReduceWindowOp [f32 [1, 3, 3, 5]] [tp_input] [splat_const [] 0]
             [1, 3, 3, 1] [1, 2, 2, 1] [1, 1, 1, 1] [1, 1, 1, 1]
             [(0, 0), (0, 0), (0, 0), (0, 0)] AddBody"

definition tp_div_const :: "(real, Body) Value DivOp" where
  "tp_div_const =
     DivOp (Value (f32 [1, 5, 3, 3])
              (Some (mhlo_transpose
                 (TransposeOp (Value (f32 [1, 3, 3, 5]) (Some (mhlo_reduce_window tp_rw)))
                    [0, 3, 1, 2]))))
           (splat_const [1, 5, 3, 3] 9)
           (f32 [1, 5, 3, 3])"

text \<open>
  A window \<open>[1,3,3,1]\<close> on the \<open>[1, 8, 8, 3]\<close> input with stride \<open>2^32 + 2\<close> along the height,
  which steps past the input after the first window: the result is \<open>[1, 1, 3, 3]\<close>.  The
  stride does not fit 32 bits.  \<open>far_stride_div\<close> divides it by the same window over ones.
\<close>

definition far_stride_rw :: "(real, Body) Value \<Rightarrow> ((real, Body) Value, Body) ReduceWindowOp" where
  "far_stride_rw x = ReduceWindowOp [f32 [1, 1, 3, 3]] [x] [splat_const [] 0]
             [1, 3, 3, 1] [1, 4294967298, 2, 1] [1, 1, 1, 1] [1, 1, 1, 1]
             [(0, 0), (0, 0), (0, 0), (0, 0)] AddBody"

definition far_stride_div :: "(real, Body) Value DivOp" where
  "far_stride_div =
     DivOp (Value (f32 [1, 1, 3, 3]) (Some (mhlo_reduce_window (far_stride_rw ex_input))))
           (Value (f32 [1, 1, 3, 3])
              (Some (mhlo_reduce_window (far_stride_rw (splat_const [1, 8, 8, 3] 1)))))
           (f32 [1, 1, 3, 3])"



text \<open>A channel-first reduce-window: window \<open>[1,1,3,3]\<close> on a \<open>[1, 3, 8, 8]\<close> input.\<close>

definition nchw_rw :: "((real, Body) Value, Body) ReduceWindowOp" where
  "nchw_rw = ReduceWindowOp [f32 [1, 3, 5, 7]] [Value (f32 [1, 3, 8, 8]) None] [splat_const [] 0]
             [1, 1, 3, 3] [1, 1, 2, 2] [1, 1, 1, 1] [1, 1, 1, 1]
             [(0, 0), (0, 0), (1, 2), (3, 4)] AddBody"

definition nchw_layout :: Layout where
  "nchw_layout = \<lparr>SpecialDim1 = 0, SpecialDim2 = 1, Spatials = [2, 3]\<rparr>"

text \<open>A reduce-window with one result and no operands, and a division of its result.\<close>

definition no_init_rw :: "((real, Body) Value, Body) ReduceWindowOp" where
  "no_init_rw = ReduceWindowOp [f32 [1, 3, 3, 3]] [] []
             [1, 3, 3, 1] [1, 2, 2, 1] [1, 1, 1, 1] [1, 1, 1, 1]
             [(0, 0), (0, 0), (0, 0), (0, 0)] AddBody"

definition no_init_div :: "(real, Body) Value DivOp" where
  "no_init_div =
     DivOp (Value (f32 [1, 3, 3, 3]) (Some (mhlo_reduce_window no_init_rw)))
           (splat_const [1, 3, 3, 3] 9) (f32 [1, 3, 3, 3])"

text \<open>A rank-3 reduce-window: window \<open>[1,3,1]\<close> on a \<open>[1, 8, 3]\<close> input.\<close>

definition rank3_rw :: "((real, Body) Value, Body) ReduceWindowOp" where
  "rank3_rw = ReduceWindowOp [f32 [1, 6, 3]] [Value (f32 [1, 8, 3]) None] [splat_const [] 0]
             [1, 3, 1] [1, 1, 1] [1, 1, 1] [1, 1, 1] [(0, 0), (0, 0), (0, 0)] AddBody"

section \<open>Reading containers: facts\<close>

lemma at_index_eq_Inr:
  "(at_index xs i = Inr x) = (0 \<le> i \<and> i < int (length xs) \<and> xs ! nat i = x)"
  by (auto simp: at_index_def)

lemma collect_map_Inr:
  "(\<And>x. x \<in> set xs \<Longrightarrow> f x = Inr (g x)) \<Longrightarrow> collect (map f xs) = Inr (map g xs)"
  by (induction xs) auto

lemma collect_eq_Inr:
  "collect rs = Inr ys \<Longrightarrow> length ys = length rs \<and> (\<forall>i<length rs. rs ! i = Inr (ys ! i))"
proof (induction rs arbitrary: ys)
  case Nil
  then show ?case by simp
next
  case (Cons r rs)
  then obtain x where r: "r = Inr x" by (cases r) auto
  with Cons.prems obtain xs where xs: "collect rs = Inr xs" "ys = x # xs"
    by (auto split: sum.splits)
  from Cons.IH [OF xs(1)] r xs(2) show ?case
    by (auto simp: nth_Cons split: nat.splits)
qed

lemma Permute_eq_Inr:
  assumes "Permute data perm = Inr res"
  shows "length res = length data"
    and "\<And>i. i < length data \<Longrightarrow>
           i < length perm \<and> 0 \<le> perm ! i \<and> perm ! i < int (length data) \<and>
           res ! i = data ! nat (perm ! i)"
proof -
  note c = collect_eq_Inr [OF assms [unfolded Permute_def]]
  show "length res = length data" using c by simp
  fix i assume i: "i < length data"
  with c have "(case at_index perm (int i) of Inl e \<Rightarrow> Inl e | Inr p \<Rightarrow> at_index data p)
                 = Inr (res ! i)"
    by simp
  then show "i < length perm \<and> 0 \<le> perm ! i \<and> perm ! i < int (length data) \<and>
           res ! i = data ! nat (perm ! i)"
    by (auto simp: at_index_eq_Inr split: sum.splits)
qed

lemma permute_paddings_eq_Inr:
  assumes "permute_paddings paddings perm = Inr res"
  shows "length res = length paddings"
    and "\<And>i. i < length paddings \<Longrightarrow>
           i < length perm \<and> 0 \<le> perm ! i \<and> perm ! i < int (length paddings) \<and>
           res ! i = (Lo (paddings ! nat (perm ! i)), Hi (paddings ! nat (perm ! i)))"
proof -
  note c = collect_eq_Inr [OF assms [unfolded permute_paddings_def]]
  show "length res = length paddings" using c by simp
  fix i assume i: "i < length paddings"
  with c have "(case at_index perm (int i) of Inl e \<Rightarrow> Inl e | Inr p \<Rightarrow>
       (case at_index paddings p of Inl e \<Rightarrow> Inl e | Inr dp \<Rightarrow> Inr (Lo dp, Hi dp)))
         = Inr (res ! i)"
    by simp
  then show "i < length perm \<and> 0 \<le> perm ! i \<and> perm ! i < int (length paddings) \<and>
           res ! i = (Lo (paddings ! nat (perm ! i)), Hi (paddings ! nat (perm ! i)))"
    by (auto simp: at_index_eq_Inr split: sum.splits)
qed

lemma upto_map_int: "[0..int n - 1] = map int [0..<n]"
proof (induction n)
  case 0
  then show ?case by simp
next
  case (Suc n)
  have "[0..int (Suc n) - 1] = [0..int n - 1] @ [int n]"
    using upto_rec2 [of 0 "int n"] by simp
  with Suc show ?case by simp
qed

section \<open>The Support Filter\<close>

lemma GetViewIfAttrsSupported_Some:
  assumes "GetViewIfAttrsSupported E op = Inr (Some (v, l))"
  shows "v = ReduceWindowView op" and "Rank v = 4" and "GuessLayout E v = Some l"
    and "AreDilationsSupported v"
    and "at_index (Paddings v) (SpecialDim1 l) = Inr (Paddings v ! nat (SpecialDim1 l))"
    and "Trivial (Paddings v ! nat (SpecialDim1 l))"
    and "at_index (Paddings v) (SpecialDim2 l) = Inr (Paddings v ! nat (SpecialDim2 l))"
    and "Trivial (Paddings v ! nat (SpecialDim2 l))"
  using assms
  by (auto simp: GetViewIfAttrsSupported_def Let_def IsRankSupported_def at_index_eq_Inr
      split: if_splits option.splits sum.splits)

lemma GetViewIfAttrsSupported_rank:
  "Rank (ReduceWindowView op) \<noteq> 4 \<Longrightarrow> GetViewIfAttrsSupported E op = Inr None"
  by (simp add: GetViewIfAttrsSupported_def Let_def IsRankSupported_def)

lemma GetViewIfAttrsSupported_in_range:
  assumes "view_invariant (ReduceWindowView op)"
    and "\<forall>g. GuessLayout E (ReduceWindowView op) = Some g \<longrightarrow>
             layout_within g (Rank (ReduceWindowView op))"
  shows "GetViewIfAttrsSupported E op =
      (if Rank (ReduceWindowView op) = 4 \<and>
          list_all (\<lambda>d. d = 1) (BaseDilations (ReduceWindowView op)) \<and>
          list_all (\<lambda>d. d = 1) (WindowDilations (ReduceWindowView op)) \<and>
          (\<exists>g. GuessLayout E (ReduceWindowView op) = Some g \<and>
               Trivial (Paddings (ReduceWindowView op) ! nat (SpecialDim1 g)) \<and>
               Trivial (Paddings (ReduceWindowView op) ! nat (SpecialDim2 g)))
       then Inr (Some (ReduceWindowView op, the (GuessLayout E (ReduceWindowView op))))
       else Inr None)"
proof (cases "GuessLayout E (ReduceWindowView op)")
  case None
  then show ?thesis
    by (simp add: GetViewIfAttrsSupported_def Let_def IsRankSupported_def)
next
  case (Some g)
  let ?v = "ReduceWindowView op"
  from Some assms have "layout_within g (Rank ?v)" and "int (length (Paddings ?v)) = Rank ?v"
    by (simp_all add: view_invariant_def)
  then have "at_index (Paddings ?v) (SpecialDim1 g) = Inr (Paddings ?v ! nat (SpecialDim1 g))"
    and "at_index (Paddings ?v) (SpecialDim2 g) = Inr (Paddings ?v ! nat (SpecialDim2 g))"
    by (simp_all add: layout_within_def at_index_def)
  with Some show ?thesis
    by (simp add: GetViewIfAttrsSupported_def Let_def IsRankSupported_def
        AreDilationsSupported_def)
qed

lemma canonical4:
  "TFLNativePoolingLayout 4 = TFLNativePoolingLayout (LayoutRank (TFLNativePoolingLayout 4))"
  by (simp add: TFLNativePoolingLayout_def LayoutRank_def upto.simps)

lemma ex_rw_filter:
  "GetViewIfAttrsSupported ex_Env ex_rw
     = Inr (Some (ReduceWindowView ex_rw, TFLNativePoolingLayout 4))"
  by (simp add: GetViewIfAttrsSupported_def ReduceWindowView_def ex_rw_def ex_Env_def
      ex_GuessLayout_def IsRankSupported_def AreDilationsSupported_def
      TFLNativePoolingLayout_def at_index_def Trivial_def Let_def upto.simps)

text \<open>
  C4.  The Support Filter rejects every reduce-window whose rank is not 4, whatever its
  other attributes.  For a node whose descriptor keeps the invariant (all sequences of
  length \<open>Rank\<close>) and for which the layout guess, when it succeeds, names dimensions of the
  node, the filter returns the pair (descriptor, layout) if and only if the rank is 4,
  every base and window dilation is 1, the guess succeeds with that layout, and the
  paddings of the batch and of the channel dimension are trivial; in every other case it
  returns no result.
\<close>

theorem support_filter_accepts_iff:
  "(Rank (ReduceWindowView op) \<noteq> 4 \<longrightarrow> GetViewIfAttrsSupported E op = Inr None) \<and>
   (view_invariant (ReduceWindowView op) \<and>
    (\<forall>g. GuessLayout E (ReduceWindowView op) = Some g \<longrightarrow>
         layout_within g (Rank (ReduceWindowView op))) \<longrightarrow>
    (\<forall>v l. (GetViewIfAttrsSupported E op = Inr (Some (v, l))) =
              (v = ReduceWindowView op \<and> Rank v = 4 \<and>
               list_all (\<lambda>d. d = 1) (BaseDilations v) \<and>
               list_all (\<lambda>d. d = 1) (WindowDilations v) \<and>
               GuessLayout E v = Some l \<and>
               Trivial (Paddings v ! nat (SpecialDim1 l)) \<and>
               Trivial (Paddings v ! nat (SpecialDim2 l)))) \<and>
    ((\<forall>v l. GetViewIfAttrsSupported E op \<noteq> Inr (Some (v, l))) \<longrightarrow>
       GetViewIfAttrsSupported E op = Inr None))"
proof (intro conjI impI)
  show "GetViewIfAttrsSupported E op = Inr None" if "Rank (ReduceWindowView op) \<noteq> 4"
    using that by (rule GetViewIfAttrsSupported_rank)
next
  assume a: "view_invariant (ReduceWindowView op) \<and>
    (\<forall>g. GuessLayout E (ReduceWindowView op) = Some g \<longrightarrow>
         layout_within g (Rank (ReduceWindowView op)))"
  then have c: "GetViewIfAttrsSupported E op =
      (if Rank (ReduceWindowView op) = 4 \<and>
          list_all (\<lambda>d. d = 1) (BaseDilations (ReduceWindowView op)) \<and>
          list_all (\<lambda>d. d = 1) (WindowDilations (ReduceWindowView op)) \<and>
          (\<exists>g. GuessLayout E (ReduceWindowView op) = Some g \<and>
               Trivial (Paddings (ReduceWindowView op) ! nat (SpecialDim1 g)) \<and>
               Trivial (Paddings (ReduceWindowView op) ! nat (SpecialDim2 g)))
       then Inr (Some (ReduceWindowView op, the (GuessLayout E (ReduceWindowView op))))
       else Inr None)"
    by (simp add: GetViewIfAttrsSupported_in_range)
  show "\<forall>v l. (GetViewIfAttrsSupported E op = Inr (Some (v, l))) =
              (v = ReduceWindowView op \<and> Rank v = 4 \<and>
               list_all (\<lambda>d. d = 1) (BaseDilations v) \<and>
               list_all (\<lambda>d. d = 1) (WindowDilations v) \<and>
               GuessLayout E v = Some l \<and>
               Trivial (Paddings v ! nat (SpecialDim1 l)) \<and>
               Trivial (Paddings v ! nat (SpecialDim2 l)))"
    unfolding c by auto
  show "GetViewIfAttrsSupported E op = Inr None"
    if "\<forall>v l. GetViewIfAttrsSupported E op \<noteq> Inr (Some (v, l))"
    using that unfolding c by (auto split: if_splits)
qed

text \<open>
  The spec's example node passes the filter with the channel-last layout; its hypotheses
  hold of the example instance.  A rank-3 node is rejected.
\<close>

theorem support_filter_accepts_iff_witness:
  "Rank (ReduceWindowView rank3_rw) \<noteq> 4 \<and>
   GetViewIfAttrsSupported ex_Env rank3_rw = Inr None \<and>
   view_invariant (ReduceWindowView ex_rw) \<and>
   GuessLayout ex_Env (ReduceWindowView ex_rw) = Some (TFLNativePoolingLayout 4) \<and>
   layout_within (TFLNativePoolingLayout 4) (Rank (ReduceWindowView ex_rw)) \<and>
   GetViewIfAttrsSupported ex_Env ex_rw
     = Inr (Some (ReduceWindowView ex_rw, TFLNativePoolingLayout 4))"
proof -
  have v: "view_invariant (ReduceWindowView ex_rw)"
    by (simp add: view_invariant_def ReduceWindowView_def ex_rw_def)
  have g: "GuessLayout ex_Env (ReduceWindowView ex_rw) = Some (TFLNativePoolingLayout 4)"
    by (simp add: ex_Env_def ex_GuessLayout_def ReduceWindowView_def ex_rw_def)
  have w: "layout_within (TFLNativePoolingLayout 4) (Rank (ReduceWindowView ex_rw))"
    by (simp add: layout_within_def TFLNativePoolingLayout_def ReduceWindowView_def ex_rw_def
        upto.simps)
  have t: "Trivial (Paddings (ReduceWindowView ex_rw) ! nat (SpecialDim1 (TFLNativePoolingLayout 4)))"
    "Trivial (Paddings (ReduceWindowView ex_rw) ! nat (SpecialDim2 (TFLNativePoolingLayout 4)))"
    by (simp_all add: Trivial_def TFLNativePoolingLayout_def ReduceWindowView_def ex_rw_def)
  have d: "Rank (ReduceWindowView ex_rw) = 4"
    "list_all (\<lambda>d. d = 1) (BaseDilations (ReduceWindowView ex_rw))"
    "list_all (\<lambda>d. d = 1) (WindowDilations (ReduceWindowView ex_rw))"
    by (simp_all add: ReduceWindowView_def ex_rw_def)
  have r: "Rank (ReduceWindowView rank3_rw) \<noteq> 4"
    by (simp add: ReduceWindowView_def rank3_rw_def)
  from support_filter_accepts_iff [of rank3_rw ex_Env] r
  have n: "GetViewIfAttrsSupported ex_Env rank3_rw = Inr None" by blast
  from support_filter_accepts_iff [of ex_rw ex_Env] v g w t d r n
  show ?thesis by simp
qed

section \<open>Inputs and init values\<close>

lemma GetInputAndInitIfValid_Some:
  assumes "GetInputAndInitIfValid op = Inr (Some (input, init_val))"
  shows "length (getResultTypes op) = 1" and "getInputs op = [input]"
    and "getInitValues op = [init_val]" and "getNumElements (getType init_val) = 1"
  using assms
  by (cases "getInitValues op"; cases "getInputs op";
      auto simp: GetInputAndInitIfValid_def front_def split: if_splits)+

lemma GetInputAndInitIfValid_OutOfBounds:
  "(GetInputAndInitIfValid op = Inl OutOfBounds) =
     (length (getResultTypes op) = 1 \<and> length (getInputs op) \<le> 1 \<and>
      length (getInitValues op) \<le> 1 \<and>
      (getInitValues op = [] \<or>
       getNumElements (getType (hd (getInitValues op))) = 1 \<and> getInputs op = []))"
  by (cases "getInitValues op"; cases "getInputs op")
     (auto simp: GetInputAndInitIfValid_def front_def)

lemma GetInputAndInitIfValid_total:
  "getInputs op \<noteq> [] \<Longrightarrow> getInitValues op \<noteq> [] \<Longrightarrow> \<exists>r. GetInputAndInitIfValid op = Inr r"
  by (cases "getInitValues op"; cases "getInputs op")
     (auto simp: GetInputAndInitIfValid_def front_def)

lemma relayout_OutOfBounds:
  "GetViewIfAttrsSupported E op = Inr (Some vl) \<Longrightarrow>
   GetInputAndInitIfValid op = Inl OutOfBounds \<Longrightarrow>
   RelayoutReduceWindow_matchAndRewrite E op = Inl OutOfBounds"
  by (cases vl) (simp add: RelayoutReduceWindow_matchAndRewrite_def)

lemma avg_pool_OutOfBounds:
  assumes "getDefiningOp (RecursivelyWalkUp [TransposeOpTy] (getLhs d))
             = Some (mhlo_reduce_window rw)"
    and "GetViewIfAttrsSupported E rw = Inr (Some (v, l))"
    and "l = TFLNativePoolingLayout (LayoutRank l)"
    and "GetInputAndInitIfValid rw = Inl OutOfBounds"
  shows "LegalizeAvgPool_matchAndRewrite E d = Inl OutOfBounds"
proof -
  have "Rank v = 4" using assms(2) by (rule GetViewIfAttrsSupported_Some)
  with assms show ?thesis
    by (simp add: LegalizeAvgPool_matchAndRewrite_def match_lhs_def Let_def)
qed

text \<open>
  C10.  \<open>GetInputAndInitIfValid\<close> checks the number of results (exactly one), of inputs (at
  most one) and of init values (at most one), and then reads the front of the init values
  and of the inputs.  Its read is outside the container exactly when the node passes the
  three size checks and either has no init value, or has a single-element init value and
  no input.  A node with at least one input and one init value never reaches that
  outcome.  Both patterns inherit it: on a node that passes the Support Filter (and, for
  the average-pool pattern, is the canonical-layout numerator) the undefined read of the
  helper is the outcome of the pattern.
\<close>

theorem input_and_init_front_unchecked:
  "(GetInputAndInitIfValid op = Inl OutOfBounds) =
     (length (getResultTypes op) = 1 \<and> length (getInputs op) \<le> 1 \<and>
      length (getInitValues op) \<le> 1 \<and>
      (getInitValues op = [] \<or>
       getNumElements (getType (hd (getInitValues op))) = 1 \<and> getInputs op = [])) \<and>
   (getInputs op \<noteq> [] \<and> getInitValues op \<noteq> [] \<longrightarrow>
      (\<exists>r. GetInputAndInitIfValid op = Inr r)) \<and>
   (\<forall>E vl. GetViewIfAttrsSupported E op = Inr (Some vl) \<and>
            GetInputAndInitIfValid op = Inl OutOfBounds \<longrightarrow>
            RelayoutReduceWindow_matchAndRewrite E op = Inl OutOfBounds) \<and>
   (\<forall>E d v l. getDefiningOp (RecursivelyWalkUp [TransposeOpTy] (getLhs d))
                 = Some (mhlo_reduce_window op) \<and>
               GetViewIfAttrsSupported E op = Inr (Some (v, l)) \<and>
               l = TFLNativePoolingLayout (LayoutRank l) \<and>
               GetInputAndInitIfValid op = Inl OutOfBounds \<longrightarrow>
               LegalizeAvgPool_matchAndRewrite E d = Inl OutOfBounds)"
  using GetInputAndInitIfValid_OutOfBounds [of op] GetInputAndInitIfValid_total [of op]
    relayout_OutOfBounds [of _ op] avg_pool_OutOfBounds [of _ op]
  by blast

text \<open>
  A node with one result and no operands passes the filter and the size checks; the
  layout pattern, and the average-pool pattern on a division of its result, then read the
  front of an empty list.  The spec's example node, with one input and one init value, is
  read within bounds.
\<close>

theorem input_and_init_front_unchecked_witness:
  "GetInputAndInitIfValid no_init_rw = Inl OutOfBounds \<and>
   GetViewIfAttrsSupported ex_Env no_init_rw
     = Inr (Some (ReduceWindowView no_init_rw, TFLNativePoolingLayout 4)) \<and>
   RelayoutReduceWindow_matchAndRewrite ex_Env no_init_rw = Inl OutOfBounds \<and>
   getDefiningOp (RecursivelyWalkUp [TransposeOpTy] (getLhs no_init_div))
     = Some (mhlo_reduce_window no_init_rw) \<and>
   LegalizeAvgPool_matchAndRewrite ex_Env no_init_div = Inl OutOfBounds \<and>
   getInputs ex_rw \<noteq> [] \<and> getInitValues ex_rw \<noteq> [] \<and>
   (\<exists>r. GetInputAndInitIfValid ex_rw = Inr r)"
proof -
  have f: "GetViewIfAttrsSupported ex_Env no_init_rw
     = Inr (Some (ReduceWindowView no_init_rw, TFLNativePoolingLayout 4))"
    by (simp add: GetViewIfAttrsSupported_def ReduceWindowView_def no_init_rw_def ex_Env_def
      ex_GuessLayout_def IsRankSupported_def AreDilationsSupported_def
      TFLNativePoolingLayout_def at_index_def Trivial_def Let_def upto.simps)
  have n: "length (getResultTypes no_init_rw) = 1" "getInputs no_init_rw = []"
    "getInitValues no_init_rw = []"
    by (simp_all add: no_init_rw_def)
  have e: "getInputs ex_rw \<noteq> []" "getInitValues ex_rw \<noteq> []"
    by (simp_all add: ex_rw_def)
  have w: "getDefiningOp (RecursivelyWalkUp [TransposeOpTy] (getLhs no_init_div))
     = Some (mhlo_reduce_window no_init_rw)"
    by (simp add: no_init_div_def)
  from input_and_init_front_unchecked [of no_init_rw] f n
  have 1: "GetInputAndInitIfValid no_init_rw = Inl OutOfBounds"
    and 2: "RelayoutReduceWindow_matchAndRewrite ex_Env no_init_rw = Inl OutOfBounds"
    by simp_all
  from input_and_init_front_unchecked [of no_init_rw] f 1 w canonical4
  have 4: "LegalizeAvgPool_matchAndRewrite ex_Env no_init_div = Inl OutOfBounds"
    by blast
  from input_and_init_front_unchecked [of ex_rw] e
  have 3: "\<exists>r. GetInputAndInitIfValid ex_rw = Inr r" by blast
  from 1 f 2 w 4 e 3 show ?thesis by simp
qed

section \<open>RelayoutReduceWindow on a canonical node\<close>

text \<open>
  C6.  On a reduce-window node whose guessed layout is already the canonical target layout
  of its rank, the layout pattern reports a match failure and rewrites nothing: a node it
  has made canonical is not rewritten again.  The node keeps the descriptor's invariant
  and has at least one input and one init value (without them the helper's read is
  undefined).  The reason is the first of the three checks that fails.
\<close>

theorem relayout_canonical_not_applicable:
  assumes "GuessLayout E (ReduceWindowView op) =
             Some (TFLNativePoolingLayout (Rank (ReduceWindowView op)))"
    and "view_invariant (ReduceWindowView op)"
    and "getInputs op \<noteq> []" and "getInitValues op \<noteq> []"
  shows "RelayoutReduceWindow_matchAndRewrite E op =
           Inr (failure
             (if GetViewIfAttrsSupported E op = Inr None
              then ''Reduce window attributes not supported.''
              else if GetInputAndInitIfValid op = Inr None
              then ''Reduce window has wrong number of inputs or init values.''
              else ''Reduce window does not need layout change''))"
proof -
  let ?v = "ReduceWindowView op"
  obtain r where r: "GetInputAndInitIfValid op = Inr r"
    using GetInputAndInitIfValid_total [OF assms(3,4)] by blast
  show ?thesis
  proof (cases "Rank ?v = 4")
    case False
    then show ?thesis
      by (simp add: RelayoutReduceWindow_matchAndRewrite_def GetViewIfAttrsSupported_rank)
  next
    case True
    have lw: "layout_within (TFLNativePoolingLayout 4) 4"
      by (simp add: layout_within_def TFLNativePoolingLayout_def upto.simps)
    have "\<forall>g. GuessLayout E ?v = Some g \<longrightarrow> layout_within g (Rank ?v)"
      using assms(1) True lw by simp
    with assms(2) GetViewIfAttrsSupported_in_range [of op E]
    have "GetViewIfAttrsSupported E op = Inr None \<or>
          GetViewIfAttrsSupported E op = Inr (Some (?v, TFLNativePoolingLayout (Rank ?v)))"
      using assms(1) by (auto split: if_splits)
    then show ?thesis using r
      by (cases r) (auto simp: RelayoutReduceWindow_matchAndRewrite_def)
  qed
qed

text \<open>The spec's example node is channel-last: the pattern does not apply to it.\<close>

theorem relayout_canonical_not_applicable_witness:
  "GuessLayout ex_Env (ReduceWindowView ex_rw) =
     Some (TFLNativePoolingLayout (Rank (ReduceWindowView ex_rw))) \<and>
   view_invariant (ReduceWindowView ex_rw) \<and> getInputs ex_rw \<noteq> [] \<and>
   getInitValues ex_rw \<noteq> [] \<and>
   RelayoutReduceWindow_matchAndRewrite ex_Env ex_rw =
     Inr (failure ''Reduce window does not need layout change'')"
proof -
  have g: "GuessLayout ex_Env (ReduceWindowView ex_rw) =
     Some (TFLNativePoolingLayout (Rank (ReduceWindowView ex_rw)))"
    by (simp add: ex_Env_def ex_GuessLayout_def ReduceWindowView_def ex_rw_def)
  have v: "view_invariant (ReduceWindowView ex_rw)"
    by (simp add: view_invariant_def ReduceWindowView_def ex_rw_def)
  have e: "getInputs ex_rw \<noteq> []" "getInitValues ex_rw \<noteq> []"
    by (simp_all add: ex_rw_def)
  have i: "GetInputAndInitIfValid ex_rw = Inr (Some (ex_input, splat_const [] 0))"
    by (simp add: GetInputAndInitIfValid_def ex_rw_def front_def splat_const_def
        getNumElements_def f32_def)
  from relayout_canonical_not_applicable [OF g v e] g v e
  show ?thesis by (simp add: ex_rw_filter i)
qed

section \<open>Layout permutations: the inverse law\<close>

lemma FindSpatial_Some:
  "FindSpatial d ss = Some k \<Longrightarrow> k < length ss \<and> ss ! k = d"
  by (induction ss arbitrary: k) (auto split: if_splits)

lemma FindSpatial_mem: "d \<in> set ss \<Longrightarrow> \<exists>k. FindSpatial d ss = Some k"
  by (induction ss) auto

lemma FindSpatial_nth:
  "distinct ss \<Longrightarrow> k < length ss \<Longrightarrow> FindSpatial (ss ! k) ss = Some k"
proof (induction ss arbitrary: k)
  case Nil
  then show ?case by simp
next
  case (Cons s ss)
  then show ?case by (cases k) auto
qed

lemma layout_wf_set:
  assumes "layout_wf l"
  shows "set (layout_dims l) = {0..<LayoutRank l}"
proof -
  have d: "distinct (layout_dims l)" using assms by (simp add: layout_wf_def layout_dims_def)
  have sub: "set (layout_dims l) \<subseteq> {0..<LayoutRank l}"
    using assms by (auto simp: layout_wf_def layout_within_def layout_dims_def list_all_iff)
  have "card (set (layout_dims l)) = length (layout_dims l)" using d by (rule distinct_card)
  also have "\<dots> = card {0..<LayoutRank l}" by (simp add: layout_dims_def LayoutRank_def)
  finally show ?thesis using sub by (simp add: card_subset_eq)
qed

lemma role_of_dim_total:
  assumes "layout_wf l" "0 \<le> d" "d < LayoutRank l"
  shows "\<exists>r. role_of_dim l d = Some r"
proof -
  have "d \<in> set (layout_dims l)" using layout_wf_set [OF assms(1)] assms(2,3) by simp
  then show ?thesis
    using FindSpatial_mem [of d "Spatials l"] by (auto simp: role_of_dim_def layout_dims_def)
qed

lemma dim_of_role_of_dim: "role_of_dim l d = Some r \<Longrightarrow> dim_of_role l r = Some d"
  by (auto simp: role_of_dim_def dim_of_role_def dest: FindSpatial_Some split: if_splits)

lemma role_of_dim_of_role:
  assumes "layout_wf l" "dim_of_role l r = Some d"
  shows "role_of_dim l d = Some r"
proof (cases r)
  case Batch
  with assms show ?thesis by (simp add: dim_of_role_def role_of_dim_def)
next
  case Channel
  with assms show ?thesis by (auto simp: dim_of_role_def role_of_dim_def layout_wf_def)
next
  case (Spatial k)
  with assms have k: "k < length (Spatials l)" "d = Spatials l ! k"
    by (auto simp: dim_of_role_def split: if_splits)
  from assms(1) have "distinct (Spatials l)" "SpecialDim1 l \<notin> set (Spatials l)"
    "SpecialDim2 l \<notin> set (Spatials l)"
    by (auto simp: layout_wf_def)
  moreover have "Spatials l ! k \<in> set (Spatials l)" using k(1) by (rule nth_mem)
  ultimately have "d \<noteq> SpecialDim1 l" "d \<noteq> SpecialDim2 l" "distinct (Spatials l)"
    using k(2) by auto
  then show ?thesis using k Spatial
    by (simp add: role_of_dim_def FindSpatial_nth)
qed

lemma dim_of_role_range:
  assumes "layout_wf l" "dim_of_role l r = Some d"
  shows "0 \<le> d \<and> d < LayoutRank l"
  using assms
  by (cases r) (auto simp: dim_of_role_def layout_wf_def layout_within_def list_all_length
      split: if_splits)

lemma dim_of_role_transfer:
  assumes "role_of_dim l d = Some r" "length (Spatials l') = length (Spatials l)"
  shows "\<exists>s. dim_of_role l' r = Some s"
  using assms
  by (cases r) (auto simp: dim_of_role_def role_of_dim_def dest: FindSpatial_Some split: if_splits)

lemma GetPermForReLayout_wf:
  assumes "layout_wf a" "layout_wf b" "LayoutRank a = LayoutRank b"
  shows "GetPermForReLayout a b = Inr (map (relayout_dim a b) [0..LayoutRank b - 1])"
  unfolding GetPermForReLayout_def
proof (rule collect_map_Inr)
  fix d assume "d \<in> set [0..LayoutRank b - 1]"
  then have d: "0 \<le> d" "d < LayoutRank b" by auto
  then obtain r where r: "role_of_dim b d = Some r"
    using role_of_dim_total [OF assms(2)] by blast
  have "length (Spatials a) = length (Spatials b)"
    using assms(3) by (simp add: LayoutRank_def)
  then obtain s where "dim_of_role a r = Some s"
    using dim_of_role_transfer [OF r] by blast
  with r show "(case role_of_dim b d of None \<Rightarrow> Inl OutOfBounds
        | Some r \<Rightarrow> (case dim_of_role a r of None \<Rightarrow> Inl OutOfBounds | Some s \<Rightarrow> Inr s))
       = Inr (relayout_dim a b d)"
    by (simp add: relayout_dim_def)
qed

lemma relayout_dim_range:
  assumes "layout_wf a" "layout_wf b" "LayoutRank a = LayoutRank b" "0 \<le> d" "d < LayoutRank b"
  shows "0 \<le> relayout_dim a b d \<and> relayout_dim a b d < LayoutRank a"
proof -
  obtain r where r: "role_of_dim b d = Some r"
    using role_of_dim_total [OF assms(2,4,5)] by blast
  have "length (Spatials a) = length (Spatials b)"
    using assms(3) by (simp add: LayoutRank_def)
  then obtain s where s: "dim_of_role a r = Some s"
    using dim_of_role_transfer [OF r] by blast
  with r dim_of_role_range [OF assms(1) s] show ?thesis by (simp add: relayout_dim_def)
qed

lemma relayout_dim_inverse:
  assumes "layout_wf a" "layout_wf b" "LayoutRank a = LayoutRank b" "0 \<le> d" "d < LayoutRank a"
  shows "relayout_dim a b (relayout_dim b a d) = d"
proof -
  obtain r where r: "role_of_dim a d = Some r"
    using role_of_dim_total [OF assms(1,4,5)] by blast
  have "length (Spatials b) = length (Spatials a)"
    using assms(3) by (simp add: LayoutRank_def)
  then obtain s where s: "dim_of_role b r = Some s"
    using dim_of_role_transfer [OF r] by blast
  have "role_of_dim b s = Some r" using role_of_dim_of_role [OF assms(2) s] .
  moreover have "dim_of_role a r = Some d" using dim_of_role_of_dim [OF r] .
  ultimately show ?thesis using r s by (simp add: relayout_dim_def)
qed

lemma Permute_relayout:
  assumes "layout_wf a" "layout_wf b" "LayoutRank a = LayoutRank b"
  shows "Permute (map (relayout_dim a b) [0..LayoutRank b - 1])
                 (map (relayout_dim b a) [0..LayoutRank a - 1]) = Inr [0..LayoutRank a - 1]"
proof -
  define n where "n = length (Spatials a) + 2"
  define p where "p = map (relayout_dim a b) (map int [0..<n])"
  define q where "q = map (relayout_dim b a) (map int [0..<n])"
  have na: "LayoutRank a = int n" and nb: "LayoutRank b = int n"
    using assms(3) by (simp_all add: LayoutRank_def n_def)
  have lp: "length p = n" and lq: "length q = n" by (simp_all add: p_def q_def)
  have "collect (map (\<lambda>i. case at_index q (int i) of Inl e \<Rightarrow> Inl e | Inr x \<Rightarrow> at_index p x)
          [0..<n]) = Inr (map int [0..<n])"
  proof (rule collect_map_Inr)
    fix i assume "i \<in> set [0..<n]"
    then have i: "i < n" by simp
    then have r: "0 \<le> relayout_dim b a (int i) \<and> relayout_dim b a (int i) < int n"
      using relayout_dim_range [OF assms(2,1), of "int i"] na nb by simp
    have inv: "relayout_dim a b (relayout_dim b a (int i)) = int i"
      using relayout_dim_inverse [OF assms, of "int i"] i na by simp
    have qi: "q ! i = relayout_dim b a (int i)" using i by (simp add: q_def)
    have 1: "at_index q (int i) = Inr (relayout_dim b a (int i))"
      using i lq qi by (simp add: at_index_def)
    have "nat (relayout_dim b a (int i)) < n" using r by (simp add: nat_less_iff)
    then have "p ! nat (relayout_dim b a (int i))
               = relayout_dim a b (int (nat (relayout_dim b a (int i))))"
      by (simp add: p_def)
    then have 2: "at_index p (relayout_dim b a (int i)) = Inr (int i)"
      using r inv lp by (simp add: at_index_def)
    show "(case at_index q (int i) of Inl e \<Rightarrow> Inl e | Inr x \<Rightarrow> at_index p x) = Inr (int i)"
      by (simp add: 1 2)
  qed
  then have "Permute p q = Inr (map int [0..<n])"
    by (simp add: Permute_def lp)
  then show ?thesis by (simp add: na nb upto_map_int p_def q_def)
qed

lemma relayout_dim_role:
  assumes "layout_wf b" "dim_of_role b r = Some d"
  shows "relayout_dim a b d = the (dim_of_role a r)"
  using role_of_dim_of_role [OF assms] by (simp add: relayout_dim_def)

lemma PermuteShape_wf:
  assumes "layout_wf a" "layout_wf b" "LayoutRank a = LayoutRank b"
    and "int (length shape) = LayoutRank a"
  shows "PermuteShape a b shape =
           Inr (map (\<lambda>d. shape ! nat (relayout_dim a b d)) [0..LayoutRank b - 1])"
proof -
  have "collect (map (at_index shape) (map (relayout_dim a b) [0..LayoutRank b - 1]))
        = Inr (map (\<lambda>d. shape ! nat (relayout_dim a b d)) [0..LayoutRank b - 1])"
    unfolding map_map
  proof (rule collect_map_Inr)
    fix d assume "d \<in> set [0..LayoutRank b - 1]"
    then have "0 \<le> d" "d < LayoutRank b" by auto
    from relayout_dim_range [OF assms(1-3) this] assms(4)
    show "(at_index shape \<circ> relayout_dim a b) d = Inr (shape ! nat (relayout_dim a b d))"
      by (simp add: at_index_def)
  qed
  then show ?thesis
    by (simp add: PermuteShape_def GetPermForReLayout_wf [OF assms(1-3)])
qed

lemma laid_out_relayout:
  assumes wf: "layout_wf a" "layout_wf b" "LayoutRank a = LayoutRank b"
    and lo: "laid_out a bs cs ss shape"
  shows "laid_out b bs cs ss (map (\<lambda>d. shape ! nat (relayout_dim a b d)) [0..LayoutRank b - 1])"
proof -
  let ?shape' = "map (\<lambda>d. shape ! nat (relayout_dim a b d)) [0..LayoutRank b - 1]"
  define n where "n = length (Spatials b) + 2"
  have nb: "LayoutRank b = int n" by (simp add: LayoutRank_def n_def)
  have len: "length (Spatials a) = length (Spatials b)"
    using wf(3) by (simp add: LayoutRank_def)
  have shape': "?shape' = map (\<lambda>i. shape ! nat (relayout_dim a b (int i))) [0..<n]"
    by (simp add: nb upto_map_int comp_def)
  have nth: "at_index ?shape' d = Inr (shape ! nat (relayout_dim a b d))"
    if "0 \<le> d" "d < LayoutRank b" for d
    using that unfolding shape' by (simp add: at_index_def nb nat_less_iff)
  have role: "at_index ?shape' d = Inr (shape ! nat (the (dim_of_role a r)))"
    if "dim_of_role b r = Some d" for r d
    using nth dim_of_role_range [OF wf(2) that] relayout_dim_role [OF wf(2) that, of a] by simp
  have b1: "at_index ?shape' (SpecialDim1 b) = Inr (shape ! nat (SpecialDim1 a))"
    using role [of Batch "SpecialDim1 b"] by (simp add: dim_of_role_def)
  have b2: "at_index ?shape' (SpecialDim2 b) = Inr (shape ! nat (SpecialDim2 a))"
    using role [of Channel "SpecialDim2 b"] by (simp add: dim_of_role_def)
  have b3: "at_index ?shape' (Spatials b ! k) = Inr (shape ! nat (Spatials a ! k))"
    if "k < length (Spatials b)" for k
    using role [of "Spatial k" "Spatials b ! k"] that len by (simp add: dim_of_role_def)
  from lo have a1: "shape ! nat (SpecialDim1 a) = bs" and a2: "shape ! nat (SpecialDim2 a) = cs"
    and a3: "\<And>k. k < length ss \<Longrightarrow> shape ! nat (Spatials a ! k) = ss ! k"
    and a4: "length ss = length (Spatials a)"
    by (auto simp: laid_out_def at_index_eq_Inr list_all_iff)
  show ?thesis
    unfolding laid_out_def
    using b1 b2 b3 a1 a2 a3 a4 len
    by (auto simp: list_all_iff nb n_def simp del: upto.simps)
qed

text \<open>
  C8.  For two layouts of the spec's data model (batch, channel and spatial dimensions
  distinct and within the rank) of the same rank, both relayout permutations exist, each
  composed with the other is the identity permutation \<open>[0..rank - 1]\<close>, and permuting a
  shape laid out as the first layout gives the same batch, channel and spatial sizes laid
  out as the second.
\<close>

theorem relayout_permutations_inverse:
  assumes "layout_wf a" and "layout_wf b" and "LayoutRank a = LayoutRank b"
  shows "\<exists>p q. GetPermForReLayout a b = Inr p \<and> GetPermForReLayout b a = Inr q \<and>
           Permute p q = Inr [0..LayoutRank a - 1] \<and> Permute q p = Inr [0..LayoutRank a - 1] \<and>
           (\<forall>bs cs ss shape. laid_out a bs cs ss shape \<longrightarrow>
              (\<exists>shape'. PermuteShape a b shape = Inr shape' \<and> laid_out b bs cs ss shape'))"
proof -
  have ab: "GetPermForReLayout a b = Inr (map (relayout_dim a b) [0..LayoutRank b - 1])"
    using assms by (rule GetPermForReLayout_wf)
  have ba: "GetPermForReLayout b a = Inr (map (relayout_dim b a) [0..LayoutRank a - 1])"
    using assms by (simp add: GetPermForReLayout_wf)
  have 1: "Permute (map (relayout_dim a b) [0..LayoutRank b - 1])
             (map (relayout_dim b a) [0..LayoutRank a - 1]) = Inr [0..LayoutRank a - 1]"
    using assms by (rule Permute_relayout)
  have 2: "Permute (map (relayout_dim b a) [0..LayoutRank a - 1])
             (map (relayout_dim a b) [0..LayoutRank b - 1]) = Inr [0..LayoutRank a - 1]"
    using Permute_relayout [OF assms(2,1)] assms(3) by simp
  have 3: "\<exists>shape'. PermuteShape a b shape = Inr shape' \<and> laid_out b bs cs ss shape'"
    if "laid_out a bs cs ss shape" for bs cs ss shape
  proof -
    have "int (length shape) = LayoutRank a" using that by (simp add: laid_out_def)
    from PermuteShape_wf [OF assms this] laid_out_relayout [OF assms that]
    show ?thesis by simp
  qed
  show ?thesis using ab ba 1 2 3 by blast
qed

text \<open>
  Channel-first to channel-last at rank 4: the permutations are \<open>[0, 2, 3, 1]\<close> and
  \<open>[0, 3, 1, 2]\<close>, and the shape \<open>[1, 3, 8, 8]\<close> becomes \<open>[1, 8, 8, 3]\<close>.
\<close>

theorem relayout_permutations_inverse_witness:
  "layout_wf nchw_layout \<and> layout_wf (TFLNativePoolingLayout 4) \<and>
   LayoutRank nchw_layout = LayoutRank (TFLNativePoolingLayout 4) \<and>
   laid_out nchw_layout 1 3 [8, 8] [1, 3, 8, 8] \<and>
   (\<exists>p q. GetPermForReLayout nchw_layout (TFLNativePoolingLayout 4) = Inr p \<and>
          GetPermForReLayout (TFLNativePoolingLayout 4) nchw_layout = Inr q \<and>
          p = [0, 2, 3, 1] \<and> q = [0, 3, 1, 2] \<and>
          Permute p q = Inr [0, 1, 2, 3] \<and> Permute q p = Inr [0, 1, 2, 3] \<and>
          (\<exists>shape'. PermuteShape nchw_layout (TFLNativePoolingLayout 4) [1, 3, 8, 8] = Inr shape' \<and>
                    shape' = [1, 8, 8, 3] \<and>
                    laid_out (TFLNativePoolingLayout 4) 1 3 [8, 8] shape'))"
proof -
  have a: "layout_wf nchw_layout"
    by (simp add: layout_wf_def layout_within_def nchw_layout_def LayoutRank_def)
  have b: "layout_wf (TFLNativePoolingLayout 4)"
    by (simp add: layout_wf_def layout_within_def TFLNativePoolingLayout_def LayoutRank_def
        upto.simps)
  have r: "LayoutRank nchw_layout = LayoutRank (TFLNativePoolingLayout 4)"
    by (simp add: nchw_layout_def TFLNativePoolingLayout_def LayoutRank_def upto.simps)
  have l: "laid_out nchw_layout 1 3 [8, 8] [1, 3, 8, 8]"
    by (simp add: laid_out_def nchw_layout_def LayoutRank_def at_index_def upt_rec)
  have p: "GetPermForReLayout nchw_layout (TFLNativePoolingLayout 4) = Inr [0, 2, 3, 1]"
    by (simp add: GetPermForReLayout_def nchw_layout_def TFLNativePoolingLayout_def
        LayoutRank_def role_of_dim_def dim_of_role_def upto.simps)
  have q: "GetPermForReLayout (TFLNativePoolingLayout 4) nchw_layout = Inr [0, 3, 1, 2]"
    by (simp add: GetPermForReLayout_def nchw_layout_def TFLNativePoolingLayout_def
        LayoutRank_def role_of_dim_def dim_of_role_def upto.simps)
  have s: "PermuteShape nchw_layout (TFLNativePoolingLayout 4) [1, 3, 8, 8] = Inr [1, 8, 8, 3]"
    by (simp add: PermuteShape_def p at_index_def)
  have n: "[0..LayoutRank nchw_layout - 1] = [0, 1, 2, 3]"
    by (simp add: nchw_layout_def LayoutRank_def upto.simps)
  from relayout_permutations_inverse [OF a b r]
  obtain p' q' where pq: "GetPermForReLayout nchw_layout (TFLNativePoolingLayout 4) = Inr p'"
      "GetPermForReLayout (TFLNativePoolingLayout 4) nchw_layout = Inr q'"
      "Permute p' q' = Inr [0..LayoutRank nchw_layout - 1]"
      "Permute q' p' = Inr [0..LayoutRank nchw_layout - 1]"
    and all: "\<forall>bs cs ss shape. laid_out nchw_layout bs cs ss shape \<longrightarrow>
              (\<exists>shape'. PermuteShape nchw_layout (TFLNativePoolingLayout 4) shape = Inr shape' \<and>
                 laid_out (TFLNativePoolingLayout 4) bs cs ss shape')"
    by blast
  from all l obtain shape'
    where "PermuteShape nchw_layout (TFLNativePoolingLayout 4) [1, 3, 8, 8] = Inr shape'"
      and "laid_out (TFLNativePoolingLayout 4) 1 3 [8, 8] shape'"
    by blast
  with s have lo: "laid_out (TFLNativePoolingLayout 4) 1 3 [8, 8] [1, 8, 8, 3]" by simp
  from pq p q n have "Permute [0, 2, 3, 1] [0, 3, 1, 2] = Inr [0, 1, 2, 3]"
    and "Permute [0, 3, 1, 2] [0, 2, 3, 1] = Inr [0, 1, 2, 3]"
    by simp_all
  with a b r l p q s lo show ?thesis by simp
qed

section \<open>RelayoutReduceWindow: the rewrite\<close>

lemma Relayout_success:
  assumes "RelayoutReduceWindow_matchAndRewrite E op = Inr (success new_output)"
  shows "\<exists>view layout input init_val perm_for_inputs perm_for_outputs new_paddings
            new_window_dims new_window_strides cur_out_type new_rw_out_shape.
     GetViewIfAttrsSupported E op = Inr (Some (view, layout)) \<and>
     GetInputAndInitIfValid op = Inr (Some (input, init_val)) \<and>
     layout \<noteq> TFLNativePoolingLayout (Rank view) \<and>
     GetPermForReLayout layout (TFLNativePoolingLayout (Rank view)) = Inr perm_for_inputs \<and>
     GetPermForReLayout (TFLNativePoolingLayout (Rank view)) layout = Inr perm_for_outputs \<and>
     permute_paddings (Paddings view) perm_for_inputs = Inr new_paddings \<and>
     Permute (WindowDims view) perm_for_inputs = Inr new_window_dims \<and>
     Permute (WindowStrides view) perm_for_inputs = Inr new_window_strides \<and>
     at_index (getResultTypes op) 0 = Inr cur_out_type \<and>
     PermuteShape layout (TFLNativePoolingLayout (Rank view)) (getShape cur_out_type)
       = Inr new_rw_out_shape \<and>
     new_output =
       TransposeTensor E
         (Value (cur_out_type\<lparr>getShape := new_rw_out_shape\<rparr>)
            (Some (mhlo_reduce_window
               (ReduceWindowOp [cur_out_type\<lparr>getShape := new_rw_out_shape\<rparr>]
                  [TransposeTensor E input perm_for_inputs] [init_val]
                  new_window_dims new_window_strides (BaseDilations view)
                  (WindowDilations view) new_paddings (getBody op)))))
         perm_for_outputs"
  using assms
  by (simp add: RelayoutReduceWindow_matchAndRewrite_def Let_def BuildDenseI64_def
      split: sum.splits option.splits prod.splits if_splits)

text \<open>
  C7.  When the layout pattern rewrites a reduce-window, the replacement is the transpose
  by \<open>perm_out = target.permutation_to(layout)\<close> of the result of a new reduce-window
  whose single input is the transpose of the original input by
  \<open>perm_in = layout.permutation_to(target)\<close>, whose init value and reduction body are the
  original ones, whose result type is the original result type with its shape permuted
  from the layout to the target, and whose paddings, window dimensions and window strides
  have as entry \<open>i\<close> the original entry \<open>perm_in[i]\<close>, a padding pair moving as a whole.
\<close>

theorem relayout_rewrite_permutes_attributes:
  assumes "RelayoutReduceWindow_matchAndRewrite E op = Inr (success new_output)"
  shows "\<exists>view layout input init_val perm_in perm_out cur_out_type new_shape new_rw.
     GetViewIfAttrsSupported E op = Inr (Some (view, layout)) \<and>
     GetInputAndInitIfValid op = Inr (Some (input, init_val)) \<and>
     getResultTypes op = [cur_out_type] \<and>
     GetPermForReLayout layout (TFLNativePoolingLayout (Rank view)) = Inr perm_in \<and>
     GetPermForReLayout (TFLNativePoolingLayout (Rank view)) layout = Inr perm_out \<and>
     PermuteShape layout (TFLNativePoolingLayout (Rank view)) (getShape cur_out_type)
       = Inr new_shape \<and>
     new_output =
       TransposeTensor E
         (Value (cur_out_type\<lparr>getShape := new_shape\<rparr>) (Some (mhlo_reduce_window new_rw)))
         perm_out \<and>
     getResultTypes new_rw = [cur_out_type\<lparr>getShape := new_shape\<rparr>] \<and>
     getInputs new_rw = [TransposeTensor E input perm_in] \<and>
     getInitValues new_rw = [init_val] \<and>
     getBody new_rw = getBody op \<and>
     getBaseDilations new_rw = getBaseDilations op \<and>
     getWindowDilations new_rw = getWindowDilations op \<and>
     length (getPadding new_rw) = length (getPadding op) \<and>
     length (getWindowDimensions new_rw) = length (getWindowDimensions op) \<and>
     length (getWindowStrides new_rw) = length (getWindowStrides op) \<and>
     (\<forall>i<length (getPadding op).
        getPadding new_rw ! i = getPadding op ! nat (perm_in ! i)) \<and>
     (\<forall>i<length (getWindowDimensions op).
        getWindowDimensions new_rw ! i = getWindowDimensions op ! nat (perm_in ! i)) \<and>
     (\<forall>i<length (getWindowStrides op).
        getWindowStrides new_rw ! i = getWindowStrides op ! nat (perm_in ! i))"
proof -
  from Relayout_success [OF assms]
  obtain view layout input init_val perm_in perm_out new_paddings new_window_dims
    new_window_strides cur_out_type new_shape
    where f: "GetViewIfAttrsSupported E op = Inr (Some (view, layout))"
      and io: "GetInputAndInitIfValid op = Inr (Some (input, init_val))"
      and pin: "GetPermForReLayout layout (TFLNativePoolingLayout (Rank view)) = Inr perm_in"
      and pout: "GetPermForReLayout (TFLNativePoolingLayout (Rank view)) layout = Inr perm_out"
      and pp: "permute_paddings (Paddings view) perm_in = Inr new_paddings"
      and pd: "Permute (WindowDims view) perm_in = Inr new_window_dims"
      and ps: "Permute (WindowStrides view) perm_in = Inr new_window_strides"
      and ty: "at_index (getResultTypes op) 0 = Inr cur_out_type"
      and sh: "PermuteShape layout (TFLNativePoolingLayout (Rank view)) (getShape cur_out_type)
                 = Inr new_shape"
      and out: "new_output =
         TransposeTensor E
           (Value (cur_out_type\<lparr>getShape := new_shape\<rparr>)
              (Some (mhlo_reduce_window
                 (ReduceWindowOp [cur_out_type\<lparr>getShape := new_shape\<rparr>]
                    [TransposeTensor E input perm_in] [init_val]
                    new_window_dims new_window_strides (BaseDilations view)
                    (WindowDilations view) new_paddings (getBody op)))))
           perm_out"
    by blast
  have v: "view = ReduceWindowView op" using f by (rule GetViewIfAttrsSupported_Some)
  have "length (getResultTypes op) = 1" using io by (rule GetInputAndInitIfValid_Some)
  with ty have rt: "getResultTypes op = [cur_out_type]"
    by (cases "getResultTypes op") (simp_all add: at_index_def)
  have wd: "WindowDims view = getWindowDimensions op"
    and ws: "WindowStrides view = getWindowStrides op"
    and bd: "BaseDilations view = getBaseDilations op"
    and wl: "WindowDilations view = getWindowDilations op"
    and pa: "Paddings view = map (\<lambda>(lo, hi). \<lparr>Lo = lo, Hi = hi\<rparr>) (getPadding op)"
    by (simp_all add: v ReduceWindowView_def)
  have lp: "length new_paddings = length (getPadding op)"
    using permute_paddings_eq_Inr(1) [OF pp] by (simp add: pa)
  have np: "new_paddings ! i = getPadding op ! nat (perm_in ! i)"
    if "i < length (getPadding op)" for i
  proof -
    from that have "i < length (Paddings view)" by (simp add: pa)
    from permute_paddings_eq_Inr(2) [OF pp this]
    have k: "nat (perm_in ! i) < length (getPadding op)"
      and e: "new_paddings ! i =
               (Lo (Paddings view ! nat (perm_in ! i)), Hi (Paddings view ! nat (perm_in ! i)))"
      by (simp_all add: pa nat_less_iff)
    from k e show ?thesis by (simp add: pa case_prod_unfold)
  qed
  have ld: "length new_window_dims = length (getWindowDimensions op)"
    using Permute_eq_Inr(1) [OF pd] by (simp add: wd)
  have nd: "new_window_dims ! i = getWindowDimensions op ! nat (perm_in ! i)"
    if "i < length (getWindowDimensions op)" for i
    using Permute_eq_Inr(2) [OF pd, of i] that by (simp add: wd)
  have ls: "length new_window_strides = length (getWindowStrides op)"
    using Permute_eq_Inr(1) [OF ps] by (simp add: ws)
  have ns: "new_window_strides ! i = getWindowStrides op ! nat (perm_in ! i)"
    if "i < length (getWindowStrides op)" for i
    using Permute_eq_Inr(2) [OF ps, of i] that by (simp add: ws)
  let ?rw = "ReduceWindowOp [cur_out_type\<lparr>getShape := new_shape\<rparr>]
               [TransposeTensor E input perm_in] [init_val]
               new_window_dims new_window_strides (getBaseDilations op)
               (getWindowDilations op) new_paddings (getBody op)"
  have "GetViewIfAttrsSupported E op = Inr (Some (view, layout)) \<and>
     GetInputAndInitIfValid op = Inr (Some (input, init_val)) \<and>
     getResultTypes op = [cur_out_type] \<and>
     GetPermForReLayout layout (TFLNativePoolingLayout (Rank view)) = Inr perm_in \<and>
     GetPermForReLayout (TFLNativePoolingLayout (Rank view)) layout = Inr perm_out \<and>
     PermuteShape layout (TFLNativePoolingLayout (Rank view)) (getShape cur_out_type)
       = Inr new_shape \<and>
     new_output =
       TransposeTensor E
         (Value (cur_out_type\<lparr>getShape := new_shape\<rparr>) (Some (mhlo_reduce_window ?rw)))
         perm_out \<and>
     getResultTypes ?rw = [cur_out_type\<lparr>getShape := new_shape\<rparr>] \<and>
     getInputs ?rw = [TransposeTensor E input perm_in] \<and>
     getInitValues ?rw = [init_val] \<and>
     getBody ?rw = getBody op \<and>
     getBaseDilations ?rw = getBaseDilations op \<and>
     getWindowDilations ?rw = getWindowDilations op \<and>
     length (getPadding ?rw) = length (getPadding op) \<and>
     length (getWindowDimensions ?rw) = length (getWindowDimensions op) \<and>
     length (getWindowStrides ?rw) = length (getWindowStrides op) \<and>
     (\<forall>i<length (getPadding op).
        getPadding ?rw ! i = getPadding op ! nat (perm_in ! i)) \<and>
     (\<forall>i<length (getWindowDimensions op).
        getWindowDimensions ?rw ! i = getWindowDimensions op ! nat (perm_in ! i)) \<and>
     (\<forall>i<length (getWindowStrides op).
        getWindowStrides ?rw ! i = getWindowStrides op ! nat (perm_in ! i))"
    using f io rt pin pout sh out lp np ld nd ls ns by (simp add: bd wl)
  then show ?thesis by blast
qed

text \<open>
  The channel-first node is rewritten: paddings \<open>[(0,0), (0,0), (1,2), (3,4)]\<close> become
  \<open>[(0,0), (1,2), (3,4), (0,0)]\<close>, the window \<open>[1,1,3,3]\<close> becomes \<open>[1,3,3,1]\<close>, the strides
  \<open>[1,1,2,2]\<close> become \<open>[1,2,2,1]\<close>, the result shape \<open>[1,3,5,7]\<close> becomes \<open>[1,5,7,3]\<close>.
\<close>

theorem relayout_rewrite_permutes_attributes_witness:
  "RelayoutReduceWindow_matchAndRewrite ex_Env nchw_rw =
     Inr (success
       (Value (f32 [1, 3, 5, 7])
          (Some (mhlo_transpose
             (TransposeOp
                (Value (f32 [1, 5, 7, 3])
                   (Some (mhlo_reduce_window
                      (ReduceWindowOp [f32 [1, 5, 7, 3]]
                         [Value (f32 [1, 8, 8, 3])
                            (Some (mhlo_transpose
                               (TransposeOp (Value (f32 [1, 3, 8, 8]) None) [0, 2, 3, 1])))]
                         [splat_const [] 0] [1, 3, 3, 1] [1, 2, 2, 1] [1, 1, 1, 1]
                         [1, 1, 1, 1] [(0, 0), (1, 2), (3, 4), (0, 0)] AddBody))))
                [0, 3, 1, 2]))))) \<and>
   (\<exists>view layout perm_in perm_out.
      GetViewIfAttrsSupported ex_Env nchw_rw = Inr (Some (view, layout)) \<and>
      GetPermForReLayout layout (TFLNativePoolingLayout (Rank view)) = Inr perm_in \<and>
      GetPermForReLayout (TFLNativePoolingLayout (Rank view)) layout = Inr perm_out)"
proof -
  have e: "RelayoutReduceWindow_matchAndRewrite ex_Env nchw_rw =
     Inr (success
       (Value (f32 [1, 3, 5, 7])
          (Some (mhlo_transpose
             (TransposeOp
                (Value (f32 [1, 5, 7, 3])
                   (Some (mhlo_reduce_window
                      (ReduceWindowOp [f32 [1, 5, 7, 3]]
                         [Value (f32 [1, 8, 8, 3])
                            (Some (mhlo_transpose
                               (TransposeOp (Value (f32 [1, 3, 8, 8]) None) [0, 2, 3, 1])))]
                         [splat_const [] 0] [1, 3, 3, 1] [1, 2, 2, 1] [1, 1, 1, 1]
                         [1, 1, 1, 1] [(0, 0), (1, 2), (3, 4), (0, 0)] AddBody))))
                [0, 3, 1, 2])))))"
    by (simp add: RelayoutReduceWindow_matchAndRewrite_def nchw_rw_def ex_Env_def
        ex_GuessLayout_def GetViewIfAttrsSupported_def ReduceWindowView_def IsRankSupported_def
        AreDilationsSupported_def TFLNativePoolingLayout_def LayoutRank_def at_index_def
        Trivial_def GetInputAndInitIfValid_def front_def getNumElements_def splat_const_def
        f32_def GetPermForReLayout_def role_of_dim_def dim_of_role_def permute_paddings_def
        Permute_def PermuteShape_def TransposeTensor_def BuildDenseI64_def Let_def upto.simps
        upt_rec)
  from relayout_rewrite_permutes_attributes [OF e] e show ?thesis by blast
qed

section \<open>Concrete nodes: facts\<close>

lemmas ex_eval =
  ex_Env_def ex_GuessLayout_def ex_IsSamePaddingOnDim_def ex_isExactlyValue_def
  round_to_precision_def splat_const_def f32_def
  LegalizeAvgPool_matchAndRewrite_def match_lhs_def match_rhs_splat_const_def
  match_rhs_reduce_window_def ReplaceWithAvgPool_def opt_final_tpose_of_def
  GetViewIfAttrsSupported_def ReduceWindowView_def IsRankSupported_def
  AreDilationsSupported_def TFLNativePoolingLayout_def LayoutRank_def at_index_def
  Trivial_def GetInputAndInitIfValid_def front_def getNumElements_def IsCstFloatZero_def
  m_Constant_def to_int32_def Let_def upto.simps



lemma ex_zero: "IsCstFloatZero ex_Env (splat_const [] 0)"
  by (simp add: IsCstFloatZero_def m_Constant_def splat_const_def ex_Env_def)

lemma round_to_precision_examples:
  "round_to_precision 24 9 = 9 \<and>
   round_to_precision 24 16777217 = 16777216 \<and>
   round_to_precision 24 16777219 = 16777220 \<and>
   round_to_precision 53 9007199254740993 = 9007199254740992"
  by code_simp

lemma ex_isExactlyValue_small: "\<bar>n\<bar> < 16777216 \<Longrightarrow> ex_isExactlyValue x n \<longleftrightarrow> x = of_int n"
  by (simp add: ex_isExactlyValue_def round_to_precision_def)

lemma same_padding_spec_accepted:
  "same_padding_spec in_dim out_dim stride window pad \<Longrightarrow>
   ex_IsSamePaddingOnDim pad out_dim in_dim stride"
  by (auto simp: same_padding_spec_def ex_IsSamePaddingOnDim_def Let_def)

section \<open>LegalizeAvgPool: padding classification\<close>

lemma tfl_padding_loop_char:
  assumes "list_all (\<lambda>i. 0 \<le> i \<and> i < int (length (Paddings v)) \<and>
             i < int (length (WindowStrides v)) \<and> i < int (length ins) \<and>
             i < int (length outs)) dims"
  shows "tfl_padding_loop E v ins outs dims pad =
     (if list_ex (\<lambda>i. \<not> dim_trivial v i \<and> \<not> dim_accepted E v ins outs i) dims
      then Inr None
      else Inr (Some (if list_ex (\<lambda>i. \<not> dim_trivial v i) dims then ''SAME'' else pad)))"
  using assms
proof (induction dims arbitrary: pad)
  case Nil
  then show ?case by simp
next
  case (Cons i dims)
  then show ?case by (simp add: at_index_def dim_trivial_def dim_accepted_def)
qed

lemma spatial_dims: "Rank view = 4 \<Longrightarrow> [1..Rank view - 2] = [1, 2]"
  by (simp add: upto.simps)

lemma spatial_loop:
  assumes "view_invariant view" "Rank view = 4" "length ins = 4" "length outs = 4"
  shows "tfl_padding_loop E view ins outs [1..Rank view - 2] ''VALID'' =
     (if list_ex (\<lambda>i. \<not> dim_trivial view i \<and> \<not> dim_accepted E view ins outs i)
           [1..Rank view - 2]
      then Inr None
      else Inr (Some (if list_ex (\<lambda>i. \<not> dim_trivial view i) [1..Rank view - 2]
                      then ''SAME'' else ''VALID'')))"
proof (rule tfl_padding_loop_char)
  show "list_all (\<lambda>i. 0 \<le> i \<and> i < int (length (Paddings view)) \<and>
             i < int (length (WindowStrides view)) \<and> i < int (length ins) \<and>
             i < int (length outs)) [1..Rank view - 2]"
    using assms by (simp add: list_all_iff view_invariant_def)
qed

lemma match_lhs_loop:
  assumes "getDefiningOp (RecursivelyWalkUp [TransposeOpTy] (getLhs div_op))
             = Some (mhlo_reduce_window rw)"
    and "GetViewIfAttrsSupported E rw = Inr (Some (view, layout))"
    and "layout = TFLNativePoolingLayout (LayoutRank layout)"
    and "GetInputAndInitIfValid rw = Inr (Some (input, init_val))"
    and "MatchBinaryReduceFunction_AddOp E (getBody rw)"
    and "getElementType (hd (getResultTypes rw)) = FloatType"
    and "IsCstFloatZero E init_val"
  shows "match_lhs E div_op =
     (case tfl_padding_loop E view (getShape (getType input)) (getShape (hd (getResultTypes rw)))
             [1..Rank view - 2] ''VALID'' of
        Inl e \<Rightarrow> Inl e
      | Inr None \<Rightarrow> Inr (failure ''Padding is not same or valid.'')
      | Inr (Some tfl_padding) \<Rightarrow>
          Inr (success (opt_final_tpose_of (getLhs div_op), rw, view, input, tfl_padding)))"
proof -
  have r: "Rank view = 4" using assms(2) by (rule GetViewIfAttrsSupported_Some)
  have "length (getResultTypes rw) = 1" using assms(4) by (rule GetInputAndInitIfValid_Some)
  then have t: "at_index (getResultTypes rw) 0 = Inr (hd (getResultTypes rw))"
    by (cases "getResultTypes rw") (simp_all add: at_index_def)
  have l: "\<not> layout \<noteq> TFLNativePoolingLayout (LayoutRank layout)" using assms(3) by simp
  show ?thesis
    unfolding match_lhs_def Let_def
    by (simp only: assms(1,2,4,5,6,7) r t l option.case Operation.case sum.case
        prod.case if_False if_True not_True_eq_False not_False_eq_True refl)
qed

lemma match_lhs_padding:
  assumes "getDefiningOp (RecursivelyWalkUp [TransposeOpTy] (getLhs div_op))
             = Some (mhlo_reduce_window rw)"
    and "GetViewIfAttrsSupported E rw = Inr (Some (view, layout))"
    and "layout = TFLNativePoolingLayout (LayoutRank layout)"
    and "GetInputAndInitIfValid rw = Inr (Some (input, init_val))"
    and "MatchBinaryReduceFunction_AddOp E (getBody rw)"
    and "getElementType (hd (getResultTypes rw)) = FloatType"
    and "IsCstFloatZero E init_val"
    and "view_invariant view" "length (getShape (getType input)) = 4"
        "length (getShape (hd (getResultTypes rw))) = 4"
  shows "match_lhs E div_op =
     (if list_ex (\<lambda>i. \<not> dim_trivial view i \<and>
            \<not> dim_accepted E view (getShape (getType input))
                 (getShape (hd (getResultTypes rw))) i) [1..Rank view - 2]
      then Inr (failure ''Padding is not same or valid.'')
      else Inr (success (opt_final_tpose_of (getLhs div_op), rw, view, input,
                  if list_ex (\<lambda>i. \<not> dim_trivial view i) [1..Rank view - 2]
                  then ''SAME'' else ''VALID'')))"
proof -
  have r: "Rank view = 4" using assms(2) by (rule GetViewIfAttrsSupported_Some)
  note m = match_lhs_loop [OF assms(1-7)]
  note s = spatial_loop [OF assms(8) r assms(9,10), of E]
  show ?thesis unfolding m s by simp
qed

section \<open>LegalizeAvgPool: the two divisor shapes\<close>

lemma to_int32_sint: "sint w = v \<Longrightarrow> to_int32 v = w"
  by (auto simp: to_int32_def)

lemma ReplaceWithAvgPool_Inr:
  assumes "3 \<le> length (WindowDims v)" "3 \<le> length (WindowStrides v)"
  shows "ReplaceWithAvgPool E op input v pad tp =
     Inr (let pool =
            Value (case tp of Some tpose \<Rightarrow> getType (getOperand tpose) | None \<Rightarrow> getDivType op)
              (Some (tfl_average_pool_2d
                 (AveragePool2DOp input (to_int32 (WindowDims v ! 1)) (to_int32 (WindowDims v ! 2))
                    pad (to_int32 (WindowStrides v ! 1)) (to_int32 (WindowStrides v ! 2))
                    ''NONE'')))
          in case tp of
               None \<Rightarrow> pool
             | Some tpose \<Rightarrow>
                 Value (inferTransposeType E (getType pool) (getPermutation tpose))
                   (Some (mhlo_transpose (TransposeOp pool (getPermutation tpose)))))"
  using assms by (simp add: ReplaceWithAvgPool_def at_index_def Let_def)

lemma walk_up_single:
  assumes "getDefiningOp rw_val = Some (mhlo_reduce_window rw)"
    and "case opt_final_tpose_of (getLhs div_op) of
           None \<Rightarrow> getLhs div_op = rw_val
         | Some tpose \<Rightarrow> getOperand tpose = rw_val"
  shows "RecursivelyWalkUp [TransposeOpTy] (getLhs div_op) = rw_val"
proof -
  obtain t where rv: "rw_val = Value t (Some (mhlo_reduce_window rw))"
    using assms(1) by (cases rw_val) simp
  then have w: "RecursivelyWalkUp [TransposeOpTy] rw_val = rw_val" by simp
  show ?thesis
  proof (cases "opt_final_tpose_of (getLhs div_op)")
    case None
    with assms(2) w show ?thesis by simp
  next
    case (Some tpose)
    then obtain t' where "getLhs div_op = Value t' (Some (mhlo_transpose tpose))"
      by (cases "getLhs div_op")
         (auto simp: opt_final_tpose_of_def split: option.splits Operation.splits)
    moreover obtain x p where "tpose = TransposeOp x p" by (cases tpose)
    ultimately show ?thesis using assms(2) Some w by simp
  qed
qed

lemma walk_up_constant:
  "m_Constant (RecursivelyWalkUp [BroadcastInDimOpTy, TransposeOpTy] v) = Some c \<Longrightarrow>
   RecursivelyWalkUp [BroadcastInDimOpTy, ReshapeOpTy, TransposeOpTy] v =
   RecursivelyWalkUp [BroadcastInDimOpTy, TransposeOpTy] v"
proof (induction "[BroadcastInDimOpTy, TransposeOpTy]" v rule: RecursivelyWalkUp.induct)
  case (3 t x)
  then show ?case by (simp add: m_Constant_def)
qed simp_all

lemma reduce_window_not_constant:
  assumes "getDefiningOp (RecursivelyWalkUp [BroadcastInDimOpTy, ReshapeOpTy, TransposeOpTy] v)
             = Some (mhlo_reduce_window rw)"
  shows "m_Constant (RecursivelyWalkUp [BroadcastInDimOpTy, TransposeOpTy] v) = None"
proof (cases "m_Constant (RecursivelyWalkUp [BroadcastInDimOpTy, TransposeOpTy] v)")
  case None
  then show ?thesis .
next
  case (Some c)
  from walk_up_constant [OF Some] assms Some show ?thesis
    by (simp add: m_Constant_def)
qed

lemma match_rhs_reduce_window_success:
  assumes "match_rhs_reduce_window E div_op tp rw view input pad = Inr (success v)"
  shows "\<exists>rw_rhs. getDefiningOp (RecursivelyWalkUp
           [BroadcastInDimOpTy, ReshapeOpTy, TransposeOpTy] (getRhs div_op))
             = Some (mhlo_reduce_window rw_rhs)"
proof (cases "getDefiningOp (RecursivelyWalkUp
           [BroadcastInDimOpTy, ReshapeOpTy, TransposeOpTy] (getRhs div_op))")
  case None
  with assms show ?thesis by (simp add: match_rhs_reduce_window_def)
next
  case (Some op)
  with assms show ?thesis
    by (cases op) (simp_all add: match_rhs_reduce_window_def)
qed

lemma avg_pool_fusion:
  assumes lhs: "getDefiningOp (RecursivelyWalkUp [TransposeOpTy] (getLhs div_op))
                  = Some (mhlo_reduce_window rw)"
    and filter: "GetViewIfAttrsSupported E rw = Inr (Some (view, layout))"
    and canonical: "layout = TFLNativePoolingLayout (LayoutRank layout)"
    and io: "GetInputAndInitIfValid rw = Inr (Some (input, init_val))"
    and body: "MatchBinaryReduceFunction_AddOp E (getBody rw)"
    and float: "getElementType (hd (getResultTypes rw)) = FloatType"
    and zero: "IsCstFloatZero E init_val"
    and wf: "view_invariant view" "length (getShape (getType input)) = 4"
            "length (getShape (hd (getResultTypes rw))) = 4"
    and pad: "\<not> list_ex (\<lambda>i. \<not> dim_trivial view i \<and>
                \<not> dim_accepted E view (getShape (getType input))
                     (getShape (hd (getResultTypes rw))) i) [1..Rank view - 2]"
    and mode: "mode = (if list_ex (\<lambda>i. \<not> dim_trivial view i) [1..Rank view - 2]
                       then ''SAME'' else ''VALID'')"
    and range: "sint fh = WindowDims view ! 1" "sint fw = WindowDims view ! 2"
               "sint sh = WindowStrides view ! 1" "sint sw = WindowStrides view ! 2"
  shows "match_lhs E div_op =
           Inr (success (opt_final_tpose_of (getLhs div_op), rw, view, input, mode))"
    and "ReplaceWithAvgPool E div_op input view mode (opt_final_tpose_of (getLhs div_op)) =
     Inr (let pool =
            Value (case opt_final_tpose_of (getLhs div_op) of
                     Some tpose \<Rightarrow> getType (getOperand tpose)
                   | None \<Rightarrow> getDivType div_op)
              (Some (tfl_average_pool_2d (AveragePool2DOp input fh fw mode sh sw ''NONE'')))
          in case opt_final_tpose_of (getLhs div_op) of
               None \<Rightarrow> pool
             | Some tpose \<Rightarrow>
                 Value (inferTransposeType E (getType pool) (getPermutation tpose))
                   (Some (mhlo_transpose (TransposeOp pool (getPermutation tpose)))))"
proof -
  have r: "Rank view = 4" using filter by (rule GetViewIfAttrsSupported_Some)
  from match_lhs_padding [OF lhs filter canonical io body float zero wf] pad mode
  show "match_lhs E div_op =
           Inr (success (opt_final_tpose_of (getLhs div_op), rw, view, input, mode))"
    by simp
  have len: "3 \<le> length (WindowDims view)" "3 \<le> length (WindowStrides view)"
    using wf(1) r by (simp_all add: view_invariant_def)
  show "ReplaceWithAvgPool E div_op input view mode (opt_final_tpose_of (getLhs div_op)) =
     Inr (let pool =
            Value (case opt_final_tpose_of (getLhs div_op) of
                     Some tpose \<Rightarrow> getType (getOperand tpose)
                   | None \<Rightarrow> getDivType div_op)
              (Some (tfl_average_pool_2d (AveragePool2DOp input fh fw mode sh sw ''NONE'')))
          in case opt_final_tpose_of (getLhs div_op) of
               None \<Rightarrow> pool
             | Some tpose \<Rightarrow>
                 Value (inferTransposeType E (getType pool) (getPermutation tpose))
                   (Some (mhlo_transpose (TransposeOp pool (getPermutation tpose)))))"
    unfolding ReplaceWithAvgPool_Inr [OF len]
    by (simp only: to_int32_sint [OF range(1)] to_int32_sint [OF range(2)]
        to_int32_sint [OF range(3)] to_int32_sint [OF range(4)])
qed
text \<open>
  C1 (as amended).  Let the left operand of a division be the result of a reduce-window, or
  the result of a transpose whose operand is the result of a reduce-window.  Let the
  reduce-window pass the Support Filter, be in the canonical layout, have its input and init
  value accepted by \<open>GetInputAndInitIfValid\<close> (one result, one input, one single-element
  init value), an addition body, a float result element type, a zero constant init value and
  trivial padding on spatial dimensions 1 and 2, with rank-4 input and result types and a
  descriptor that keeps its invariant.  Let its window dimensions 1 and 2 and its window
  strides 1 and 2 be the values of signed 32-bit integers \<open>filter_h\<close>, \<open>filter_w\<close>,
  \<open>stride_h\<close> and \<open>stride_w\<close>.  Let the right operand, after walking up through broadcasts
  and transposes, be a splat float constant that \<open>isExactlyValue\<close> equates with the product
  of the window dimensions.  Then the pattern succeeds.  It creates one average-pool node on
  the reduce-window's input with filter height and width \<open>filter_h\<close> and \<open>filter_w\<close>,
  stride height and width \<open>stride_h\<close> and \<open>stride_w\<close>, padding "VALID" and no fused
  activation.  The division is replaced by that node or, when the left operand is the
  result of a transpose, by a transpose of that node with the same permutation; the node
  then has the type of the reduce-window's result.
\<close>

theorem constant_divisor_fusion:
  assumes num: "getDefiningOp rw_val = Some (mhlo_reduce_window rw)"
    and lhs: "case opt_final_tpose_of (getLhs div_op) of
                None \<Rightarrow> getLhs div_op = rw_val
              | Some tpose \<Rightarrow> getOperand tpose = rw_val"
    and filter: "GetViewIfAttrsSupported E rw = Inr (Some (view, layout))"
    and canonical: "layout = TFLNativePoolingLayout (LayoutRank layout)"
    and io: "GetInputAndInitIfValid rw = Inr (Some (input, init_val))"
    and body: "MatchBinaryReduceFunction_AddOp E (getBody rw)"
    and float: "getElementType (hd (getResultTypes rw)) = FloatType"
    and zero: "IsCstFloatZero E init_val"
    and wf: "view_invariant view" "length (getShape (getType input)) = 4"
            "length (getShape (hd (getResultTypes rw))) = 4"
    and valid: "Trivial (Paddings view ! 1)" "Trivial (Paddings view ! 2)"
    and rhs: "m_Constant (RecursivelyWalkUp [BroadcastInDimOpTy, TransposeOpTy] (getRhs div_op))
                = Some divisor"
    and splat: "isSplat divisor"
    and size: "isExactlyValue E (firstValue divisor) (prod_list (WindowDims view))"
    and range: "sint filter_h = WindowDims view ! 1" "sint filter_w = WindowDims view ! 2"
               "sint stride_h = WindowStrides view ! 1" "sint stride_w = WindowStrides view ! 2"
  shows "LegalizeAvgPool_matchAndRewrite E div_op =
     Inr (success
       (case opt_final_tpose_of (getLhs div_op) of
          None \<Rightarrow>
            Value (getDivType div_op)
              (Some (tfl_average_pool_2d
                 (AveragePool2DOp input filter_h filter_w ''VALID'' stride_h stride_w ''NONE'')))
        | Some tpose \<Rightarrow>
            Value (inferTransposeType E (getType rw_val) (getPermutation tpose))
              (Some (mhlo_transpose
                 (TransposeOp
                    (Value (getType rw_val)
                       (Some (tfl_average_pool_2d
                          (AveragePool2DOp input filter_h filter_w ''VALID'' stride_h stride_w
                             ''NONE''))))
                    (getPermutation tpose))))))"
proof -
  have w: "RecursivelyWalkUp [TransposeOpTy] (getLhs div_op) = rw_val"
    using num lhs by (rule walk_up_single)
  have l: "getDefiningOp (RecursivelyWalkUp [TransposeOpTy] (getLhs div_op))
             = Some (mhlo_reduce_window rw)"
    using w num by simp
  have r: "Rank view = 4" and v: "view = ReduceWindowView rw"
    using filter by (rule GetViewIfAttrsSupported_Some)+
  have p: "\<not> list_ex (\<lambda>i. \<not> dim_trivial view i \<and>
                \<not> dim_accepted E view (getShape (getType input))
                     (getShape (hd (getResultTypes rw))) i) [1..Rank view - 2]"
    using valid by (simp add: spatial_dims [OF r] dim_trivial_def)
  have md: "''VALID'' = (if list_ex (\<lambda>i. \<not> dim_trivial view i) [1..Rank view - 2]
                       then ''SAME'' else ''VALID'')"
    using valid by (simp add: spatial_dims [OF r] dim_trivial_def)
  note f = avg_pool_fusion [OF l filter canonical io body float zero wf p md range]
  have ws: "WindowSize view = prod_list (WindowDims view)"
    by (simp add: v ReduceWindowView_def)
  have c1: "match_rhs_splat_const E div_op (opt_final_tpose_of (getLhs div_op)) view input ''VALID''
        = Some (case ReplaceWithAvgPool E div_op input view ''VALID''
                       (opt_final_tpose_of (getLhs div_op)) of
                  Inl e \<Rightarrow> Inl e | Inr final_op \<Rightarrow> Inr (success final_op))"
    using rhs splat size by (simp add: match_rhs_splat_const_def Let_def ws)
  show ?thesis
    using lhs
    by (simp add: LegalizeAvgPool_matchAndRewrite_def f c1 Let_def split: option.splits)
qed

text \<open>
  The spec's example: window \<open>[1,3,3,1]\<close>, strides \<open>[1,2,2,1]\<close>, divided by a broadcast
  splat 9.0, becomes an average pool with filter (3,3), stride (2,2), padding "VALID".
  The same window seen through a transpose becomes a transpose of that average pool.
\<close>

theorem constant_divisor_fusion_witness:
  "LegalizeAvgPool_matchAndRewrite ex_Env ex_div_const =
     Inr (success (Value (f32 [1, 3, 3, 3])
            (Some (tfl_average_pool_2d
               (AveragePool2DOp ex_input 3 3 ''VALID'' 2 2 ''NONE''))))) \<and>
   sint (3 :: 32 word) = WindowDims (ReduceWindowView ex_rw) ! 1 \<and>
   sint (2 :: 32 word) = WindowStrides (ReduceWindowView ex_rw) ! 1 \<and>
   LegalizeAvgPool_matchAndRewrite ex_Env tp_div_const =
     Inr (success (Value (f32 [1, 5, 3, 3])
            (Some (mhlo_transpose
               (TransposeOp
                  (Value (f32 [1, 3, 3, 5])
                     (Some (tfl_average_pool_2d
                        (AveragePool2DOp tp_input 3 3 ''VALID'' 2 2 ''NONE''))))
                  [0, 3, 1, 2])))))"
proof -
  let ?rv = "Value (f32 [1, 3, 3, 3]) (Some (mhlo_reduce_window ex_rw))"
  have num: "getDefiningOp ?rv = Some (mhlo_reduce_window ex_rw)" by simp
  have lhs: "case opt_final_tpose_of (getLhs ex_div_const) of
                None \<Rightarrow> getLhs ex_div_const = ?rv
              | Some tpose \<Rightarrow> getOperand tpose = ?rv"
    by (simp add: ex_div_const_def opt_final_tpose_of_def)
  have io: "GetInputAndInitIfValid ex_rw = Inr (Some (ex_input, splat_const [] 0))"
    by (simp add: GetInputAndInitIfValid_def ex_rw_def front_def splat_const_def
        getNumElements_def f32_def)
  have body: "MatchBinaryReduceFunction_AddOp ex_Env (getBody ex_rw)"
    by (simp add: ex_Env_def ex_rw_def)
  have float: "getElementType (hd (getResultTypes ex_rw)) = FloatType"
    by (simp add: ex_rw_def f32_def)
  have wf: "view_invariant (ReduceWindowView ex_rw)"
    "length (getShape (getType ex_input)) = 4"
    "length (getShape (hd (getResultTypes ex_rw))) = 4"
    by (simp_all add: view_invariant_def ReduceWindowView_def ex_rw_def ex_input_def f32_def)
  have valid: "Trivial (Paddings (ReduceWindowView ex_rw) ! 1)"
    "Trivial (Paddings (ReduceWindowView ex_rw) ! 2)"
    by (simp_all add: ReduceWindowView_def ex_rw_def Trivial_def)
  have rhs: "m_Constant (RecursivelyWalkUp [BroadcastInDimOpTy, TransposeOpTy]
               (getRhs ex_div_const)) = Some (DenseFPElementsAttr 1 True 9)"
    by (simp add: ex_div_const_def splat_const_def m_Constant_def)
  have splat: "isSplat (DenseFPElementsAttr 1 True (9::real))" by simp
  have size: "isExactlyValue ex_Env (firstValue (DenseFPElementsAttr 1 True (9::real)))
                (prod_list (WindowDims (ReduceWindowView ex_rw)))"
    by (simp add: ex_Env_def ReduceWindowView_def ex_rw_def ex_isExactlyValue_def
        round_to_precision_def)
  have range: "sint (3 :: 32 word) = WindowDims (ReduceWindowView ex_rw) ! 1"
    "sint (3 :: 32 word) = WindowDims (ReduceWindowView ex_rw) ! 2"
    "sint (2 :: 32 word) = WindowStrides (ReduceWindowView ex_rw) ! 1"
    "sint (2 :: 32 word) = WindowStrides (ReduceWindowView ex_rw) ! 2"
    by (simp_all add: ReduceWindowView_def ex_rw_def)
  from constant_divisor_fusion
    [OF num lhs ex_rw_filter canonical4 io body float ex_zero wf valid rhs splat size range]
  have direct: "LegalizeAvgPool_matchAndRewrite ex_Env ex_div_const =
     Inr (success (Value (f32 [1, 3, 3, 3])
            (Some (tfl_average_pool_2d
               (AveragePool2DOp ex_input 3 3 ''VALID'' 2 2 ''NONE'')))))"
    by (simp add: opt_final_tpose_of_def ex_div_const_def)
  let ?tv = "Value (f32 [1, 3, 3, 5]) (Some (mhlo_reduce_window tp_rw))"
  have t_num: "getDefiningOp ?tv = Some (mhlo_reduce_window tp_rw)" by simp
  have t_lhs: "case opt_final_tpose_of (getLhs tp_div_const) of
                None \<Rightarrow> getLhs tp_div_const = ?tv
              | Some tpose \<Rightarrow> getOperand tpose = ?tv"
    by (simp add: tp_div_const_def opt_final_tpose_of_def)
  have t_filter: "GetViewIfAttrsSupported ex_Env tp_rw
                    = Inr (Some (ReduceWindowView tp_rw, TFLNativePoolingLayout 4))"
    by (simp add: GetViewIfAttrsSupported_def ReduceWindowView_def tp_rw_def ex_Env_def
        ex_GuessLayout_def IsRankSupported_def AreDilationsSupported_def
        TFLNativePoolingLayout_def at_index_def Trivial_def Let_def upto.simps)
  have t_io: "GetInputAndInitIfValid tp_rw = Inr (Some (tp_input, splat_const [] 0))"
    by (simp add: GetInputAndInitIfValid_def tp_rw_def front_def splat_const_def
        getNumElements_def f32_def)
  have t_body: "MatchBinaryReduceFunction_AddOp ex_Env (getBody tp_rw)"
    by (simp add: ex_Env_def tp_rw_def)
  have t_float: "getElementType (hd (getResultTypes tp_rw)) = FloatType"
    by (simp add: tp_rw_def f32_def)
  have t_wf: "view_invariant (ReduceWindowView tp_rw)"
    "length (getShape (getType tp_input)) = 4"
    "length (getShape (hd (getResultTypes tp_rw))) = 4"
    by (simp_all add: view_invariant_def ReduceWindowView_def tp_rw_def tp_input_def f32_def)
  have t_valid: "Trivial (Paddings (ReduceWindowView tp_rw) ! 1)"
    "Trivial (Paddings (ReduceWindowView tp_rw) ! 2)"
    by (simp_all add: ReduceWindowView_def tp_rw_def Trivial_def)
  have t_rhs: "m_Constant (RecursivelyWalkUp [BroadcastInDimOpTy, TransposeOpTy]
               (getRhs tp_div_const)) = Some (DenseFPElementsAttr 45 True 9)"
    by (simp add: tp_div_const_def splat_const_def m_Constant_def)
  have t_splat: "isSplat (DenseFPElementsAttr 45 True (9::real))" by simp
  have t_size: "isExactlyValue ex_Env (firstValue (DenseFPElementsAttr 45 True (9::real)))
                (prod_list (WindowDims (ReduceWindowView tp_rw)))"
    by (simp add: ex_Env_def ReduceWindowView_def tp_rw_def ex_isExactlyValue_def
        round_to_precision_def)
  have t_range: "sint (3 :: 32 word) = WindowDims (ReduceWindowView tp_rw) ! 1"
    "sint (3 :: 32 word) = WindowDims (ReduceWindowView tp_rw) ! 2"
    "sint (2 :: 32 word) = WindowStrides (ReduceWindowView tp_rw) ! 1"
    "sint (2 :: 32 word) = WindowStrides (ReduceWindowView tp_rw) ! 2"
    by (simp_all add: ReduceWindowView_def tp_rw_def)
  from constant_divisor_fusion
    [OF t_num t_lhs t_filter canonical4 t_io t_body t_float ex_zero t_wf t_valid t_rhs t_splat
      t_size t_range]
  have transposed: "LegalizeAvgPool_matchAndRewrite ex_Env tp_div_const =
     Inr (success (Value (f32 [1, 5, 3, 3])
            (Some (mhlo_transpose
               (TransposeOp
                  (Value (f32 [1, 3, 3, 5])
                     (Some (tfl_average_pool_2d
                        (AveragePool2DOp tp_input 3 3 ''VALID'' 2 2 ''NONE''))))
                  [0, 3, 1, 2])))))"
    by (simp add: opt_final_tpose_of_def tp_div_const_def ex_Env_def f32_def)
  from direct range(1,3) transposed show ?thesis by blast
qed

text \<open>
  C1 as stated fails.  The numerator is the spec's example window on a five-channel input,
  and its result reaches the division through a transpose to channel-first; the denominator
  is the splat constant 9.0.  Every premise of the claim holds and the pattern succeeds, but
  the division is replaced by the result of a transpose, not by the result of an
  average-pool node: the average pool is the operand of that transpose.
\<close>

theorem constant_divisor_fusion_counterexample:
  "getDefiningOp (RecursivelyWalkUp [TransposeOpTy] (getLhs tp_div_const))
     = Some (mhlo_reduce_window tp_rw) \<and>
   GetViewIfAttrsSupported ex_Env tp_rw
     = Inr (Some (ReduceWindowView tp_rw, TFLNativePoolingLayout 4)) \<and>
   GetInputAndInitIfValid tp_rw = Inr (Some (tp_input, splat_const [] 0)) \<and>
   MatchBinaryReduceFunction_AddOp ex_Env (getBody tp_rw) \<and>
   getElementType (hd (getResultTypes tp_rw)) = FloatType \<and>
   IsCstFloatZero ex_Env (splat_const [] 0) \<and>
   Trivial (Paddings (ReduceWindowView tp_rw) ! 1) \<and>
   Trivial (Paddings (ReduceWindowView tp_rw) ! 2) \<and>
   m_Constant (RecursivelyWalkUp [BroadcastInDimOpTy, TransposeOpTy] (getRhs tp_div_const))
     = Some (DenseFPElementsAttr 45 True 9) \<and>
   isExactlyValue ex_Env 9 (prod_list (WindowDims (ReduceWindowView tp_rw))) \<and>
   LegalizeAvgPool_matchAndRewrite ex_Env tp_div_const =
     Inr (success (Value (f32 [1, 5, 3, 3])
            (Some (mhlo_transpose
               (TransposeOp
                  (Value (f32 [1, 3, 3, 5])
                     (Some (tfl_average_pool_2d
                        (AveragePool2DOp tp_input 3 3 ''VALID'' 2 2 ''NONE''))))
                  [0, 3, 1, 2]))))) \<and>
   \<not> defined_by_average_pool
       (Value (f32 [1, 5, 3, 3])
            (Some (mhlo_transpose
               (TransposeOp
                  (Value (f32 [1, 3, 3, 5])
                     (Some (tfl_average_pool_2d
                        (AveragePool2DOp tp_input 3 3 ''VALID'' 2 2 ''NONE''))))
                  [0, 3, 1, 2]))))"
  by (simp add: tp_div_const_def tp_rw_def tp_input_def defined_by_average_pool_def ex_eval)
text \<open>
  The ones-window case inside the 32-bit range.  The numerator is as in C1, except that each
  spatial dimension has trivial padding or padding that \<open>IsSamePaddingOnDim\<close> accepts.  The
  right operand, after walking up through broadcasts, reshapes and transposes, is the
  result of a reduce-window that passes the Support Filter, is in the canonical layout, has
  an addition body, has its input and init value accepted by \<open>GetInputAndInitIfValid\<close>, a
  zero constant init value, an input that (after walking up through broadcasts and
  transposes) is a splat float constant that \<open>isExactlyValue\<close> equates with 1, and window
  dimensions, window strides and padding equal to the numerator's.  Then the pattern
  succeeds with the average pool of C1, whose padding is "VALID" when every spatial padding
  is trivial and "SAME" otherwise.
\<close>

lemma ones_window_fusion_in_range:
  assumes num: "getDefiningOp rw_val = Some (mhlo_reduce_window rw)"
    and lhs: "case opt_final_tpose_of (getLhs div_op) of
                None \<Rightarrow> getLhs div_op = rw_val
              | Some tpose \<Rightarrow> getOperand tpose = rw_val"
    and filter: "GetViewIfAttrsSupported E rw = Inr (Some (view, layout))"
    and canonical: "layout = TFLNativePoolingLayout (LayoutRank layout)"
    and io: "GetInputAndInitIfValid rw = Inr (Some (input, init_val))"
    and body: "MatchBinaryReduceFunction_AddOp E (getBody rw)"
    and float: "getElementType (hd (getResultTypes rw)) = FloatType"
    and zero: "IsCstFloatZero E init_val"
    and wf: "view_invariant view" "length (getShape (getType input)) = 4"
            "length (getShape (hd (getResultTypes rw))) = 4"
    and pad: "\<not> list_ex (\<lambda>i. \<not> dim_trivial view i \<and>
                \<not> dim_accepted E view (getShape (getType input))
                     (getShape (hd (getResultTypes rw))) i) [1..Rank view - 2]"
    and mode: "mode = (if list_ex (\<lambda>i. \<not> dim_trivial view i) [1..Rank view - 2]
                       then ''SAME'' else ''VALID'')"
    and rhs: "getDefiningOp (RecursivelyWalkUp [BroadcastInDimOpTy, ReshapeOpTy, TransposeOpTy]
                (getRhs div_op)) = Some (mhlo_reduce_window rw_rhs)"
    and rhs_filter: "GetViewIfAttrsSupported E rw_rhs = Inr (Some (rhs_view, rhs_layout))"
    and rhs_canonical: "rhs_layout = TFLNativePoolingLayout (LayoutRank rhs_layout)"
    and rhs_body: "MatchBinaryReduceFunction_AddOp E (getBody rw_rhs)"
    and rhs_io: "GetInputAndInitIfValid rw_rhs = Inr (Some (rhs_input, rhs_init_val))"
    and rhs_zero: "IsCstFloatZero E rhs_init_val"
    and ones: "m_Constant (RecursivelyWalkUp [BroadcastInDimOpTy, TransposeOpTy] rhs_input)
                 = Some rhs_input_data"
              "isSplat rhs_input_data" "isExactlyValue E (firstValue rhs_input_data) 1"
    and config: "getWindowDimensions rw = getWindowDimensions rw_rhs"
                "getWindowStrides rw = getWindowStrides rw_rhs"
                "getPadding rw = getPadding rw_rhs"
    and range: "sint filter_h = WindowDims view ! 1" "sint filter_w = WindowDims view ! 2"
               "sint stride_h = WindowStrides view ! 1" "sint stride_w = WindowStrides view ! 2"
  shows "LegalizeAvgPool_matchAndRewrite E div_op =
     Inr (success
       (case opt_final_tpose_of (getLhs div_op) of
          None \<Rightarrow>
            Value (getDivType div_op)
              (Some (tfl_average_pool_2d
                 (AveragePool2DOp input filter_h filter_w mode stride_h stride_w ''NONE'')))
        | Some tpose \<Rightarrow>
            Value (inferTransposeType E (getType rw_val) (getPermutation tpose))
              (Some (mhlo_transpose
                 (TransposeOp
                    (Value (getType rw_val)
                       (Some (tfl_average_pool_2d
                          (AveragePool2DOp input filter_h filter_w mode stride_h stride_w
                             ''NONE''))))
                    (getPermutation tpose))))))"
proof -
  define tp where "tp = opt_final_tpose_of (getLhs div_op)"
  have w: "RecursivelyWalkUp [TransposeOpTy] (getLhs div_op) = rw_val"
    using num lhs by (rule walk_up_single)
  have l: "getDefiningOp (RecursivelyWalkUp [TransposeOpTy] (getLhs div_op))
             = Some (mhlo_reduce_window rw)"
    using w num by simp
  note f = avg_pool_fusion [OF l filter canonical io body float zero wf pad mode range,
      folded tp_def]
  have c1: "match_rhs_splat_const E div_op tp view input mode = None"
    using reduce_window_not_constant [OF rhs] by (simp add: match_rhs_splat_const_def)
  have rl: "\<not> rhs_layout \<noteq> TFLNativePoolingLayout (LayoutRank rhs_layout)"
    using rhs_canonical by simp
  have c: "\<not> (getWindowDimensions rw \<noteq> getWindowDimensions rw_rhs \<or>
               getWindowStrides rw \<noteq> getWindowStrides rw_rhs \<or>
               getPadding rw \<noteq> getPadding rw_rhs)"
    using config by simp
  have o: "\<not> (\<not> isSplat rhs_input_data \<or> \<not> isExactlyValue E (firstValue rhs_input_data) 1)"
    using ones by simp
  have c2: "match_rhs_reduce_window E div_op tp rw view input mode =
              (case ReplaceWithAvgPool E div_op input view mode tp of
                 Inl e \<Rightarrow> Inl e | Inr final_op \<Rightarrow> Inr (success final_op))"
    unfolding match_rhs_reduce_window_def Let_def
    by (simp only: rhs rhs_filter rhs_body rhs_io rhs_zero ones(1) rl c o option.case
        Operation.case sum.case prod.case if_False if_True not_True_eq_False
        not_False_eq_True)
  show ?thesis
    using lhs unfolding tp_def [symmetric]
    by (simp add: LegalizeAvgPool_matchAndRewrite_def f c1 c2 Let_def split: option.splits)
qed

text \<open>
  C2.  The code departs from the claim where a window dimension or stride does not fit 32
  bits: \<open>ReplaceWithAvgPool\<close> stores them in \<^verbatim>\<open>int32_t\<close> variables without a check.  The
  numerator is a canonical sum-reduce-window with window \<open>[1,3,3,1]\<close>, strides
  \<open>[1, 2^32 + 2, 2, 1]\<close> and no padding over a \<open>[1, 8, 8, 3]\<close> input; the denominator is the
  same window over a splat 1.0.  Every premise of the claim holds and the pattern succeeds,
  but the average pool it emits has stride height 2, not window stride 1, which is
  4294967298.
\<close>

theorem ones_window_fusion_narrows_stride:
  "getDefiningOp (RecursivelyWalkUp [TransposeOpTy] (getLhs far_stride_div))
     = Some (mhlo_reduce_window (far_stride_rw ex_input)) \<and>
   GetViewIfAttrsSupported ex_Env (far_stride_rw ex_input)
     = Inr (Some (ReduceWindowView (far_stride_rw ex_input), TFLNativePoolingLayout 4)) \<and>
   GetInputAndInitIfValid (far_stride_rw ex_input) = Inr (Some (ex_input, splat_const [] 0)) \<and>
   MatchBinaryReduceFunction_AddOp ex_Env (getBody (far_stride_rw ex_input)) \<and>
   getElementType (hd (getResultTypes (far_stride_rw ex_input))) = FloatType \<and>
   IsCstFloatZero ex_Env (splat_const [] 0) \<and>
   Trivial (Paddings (ReduceWindowView (far_stride_rw ex_input)) ! 1) \<and>
   Trivial (Paddings (ReduceWindowView (far_stride_rw ex_input)) ! 2) \<and>
   getDefiningOp (RecursivelyWalkUp [BroadcastInDimOpTy, ReshapeOpTy, TransposeOpTy]
       (getRhs far_stride_div))
     = Some (mhlo_reduce_window (far_stride_rw (splat_const [1, 8, 8, 3] 1))) \<and>
   GetViewIfAttrsSupported ex_Env (far_stride_rw (splat_const [1, 8, 8, 3] 1))
     = Inr (Some (ReduceWindowView (far_stride_rw (splat_const [1, 8, 8, 3] 1)),
                  TFLNativePoolingLayout 4)) \<and>
   MatchBinaryReduceFunction_AddOp ex_Env
     (getBody (far_stride_rw (splat_const [1, 8, 8, 3] 1))) \<and>
   GetInputAndInitIfValid (far_stride_rw (splat_const [1, 8, 8, 3] 1))
     = Inr (Some (splat_const [1, 8, 8, 3] 1, splat_const [] 0)) \<and>
   m_Constant (RecursivelyWalkUp [BroadcastInDimOpTy, TransposeOpTy]
       (splat_const [1, 8, 8, 3] 1))
     = Some (DenseFPElementsAttr 192 True 1) \<and>
   isExactlyValue ex_Env 1 1 \<and>
   getWindowDimensions (far_stride_rw ex_input)
     = getWindowDimensions (far_stride_rw (splat_const [1, 8, 8, 3] 1)) \<and>
   getWindowStrides (far_stride_rw ex_input)
     = getWindowStrides (far_stride_rw (splat_const [1, 8, 8, 3] 1)) \<and>
   getPadding (far_stride_rw ex_input)
     = getPadding (far_stride_rw (splat_const [1, 8, 8, 3] 1)) \<and>
   WindowStrides (ReduceWindowView (far_stride_rw ex_input)) ! 1 = 4294967298 \<and>
   LegalizeAvgPool_matchAndRewrite ex_Env far_stride_div =
     Inr (success (Value (f32 [1, 1, 3, 3])
            (Some (tfl_average_pool_2d
               (AveragePool2DOp ex_input 3 3 ''VALID'' 2 2 ''NONE''))))) \<and>
   sint (getStrideH (AveragePool2DOp ex_input 3 3 ''VALID'' 2 2 ''NONE'')) = 2"
  by (simp add: far_stride_div_def far_stride_rw_def ex_input_def ex_eval)

text \<open>
  C3 (as amended).  Once the numerator is validated, the two divisor shapes are tried in
  order.  When the right operand, seen through broadcasts and transposes, is not a float
  constant, the ones-window case is attempted and its outcome is the outcome of the
  pattern.  Whenever the ones-window case would succeed with a replacement, the pattern
  succeeds with that replacement.  When the right operand is a float constant, the
  constant-divisor case decides alone: the pattern fails at once if the constant is not a
  splat, is not the window size, or the padding is not "VALID", and the ones-window case is
  not attempted; had it run, it would have failed for want of a reduce-window.  So a failed
  constant-divisor check never costs a ones-window match.
\<close>

theorem ones_window_tried_after_constant_divisor:
  assumes "match_lhs E div_op = Inr (success (tp, rw, view, input, pad))"
  shows "(m_Constant (RecursivelyWalkUp [BroadcastInDimOpTy, TransposeOpTy] (getRhs div_op)) = None
            \<longrightarrow> LegalizeAvgPool_matchAndRewrite E div_op =
                   match_rhs_reduce_window E div_op tp rw view input pad) \<and>
         (\<forall>v. match_rhs_reduce_window E div_op tp rw view input pad = Inr (success v)
            \<longrightarrow> LegalizeAvgPool_matchAndRewrite E div_op = Inr (success v)) \<and>
         (\<forall>c. m_Constant (RecursivelyWalkUp [BroadcastInDimOpTy, TransposeOpTy] (getRhs div_op))
                = Some c
            \<longrightarrow> LegalizeAvgPool_matchAndRewrite E div_op =
                   (if \<not> isSplat c then Inr (failure [])
                    else if \<not> isExactlyValue E (firstValue c) (WindowSize view)
                    then Inr (failure ''Rhs splat const is not equal to window size.'')
                    else if pad \<noteq> ''VALID''
                    then Inr (failure
                      ''Matching on rhs splat const where rw lhs has non-trivial padding.'')
                    else (case ReplaceWithAvgPool E div_op input view pad tp of
                            Inl e \<Rightarrow> Inl e
                          | Inr final_op \<Rightarrow> Inr (success final_op))) \<and>
                match_rhs_reduce_window E div_op tp rw view input pad =
                   Inr (failure ''Rhs of div op is not a reduce window.''))"
proof (intro conjI allI impI)
  fix c
  assume c: "m_Constant (RecursivelyWalkUp [BroadcastInDimOpTy, TransposeOpTy] (getRhs div_op))
               = Some c"
  then have "getDefiningOp (RecursivelyWalkUp [BroadcastInDimOpTy, TransposeOpTy] (getRhs div_op))
               = Some (mhlo_constant (DenseFP c))"
    by (auto simp: m_Constant_def split: option.splits Operation.splits Attribute.splits)
  then have "getDefiningOp (RecursivelyWalkUp [BroadcastInDimOpTy, ReshapeOpTy, TransposeOpTy]
               (getRhs div_op)) = Some (mhlo_constant (DenseFP c))"
    using walk_up_constant [OF c] by simp
  then show "match_rhs_reduce_window E div_op tp rw view input pad =
               Inr (failure ''Rhs of div op is not a reduce window.'')"
    by (simp add: match_rhs_reduce_window_def)
  from c assms show "LegalizeAvgPool_matchAndRewrite E div_op =
                   (if \<not> isSplat c then Inr (failure [])
                    else if \<not> isExactlyValue E (firstValue c) (WindowSize view)
                    then Inr (failure ''Rhs splat const is not equal to window size.'')
                    else if pad \<noteq> ''VALID''
                    then Inr (failure
                      ''Matching on rhs splat const where rw lhs has non-trivial padding.'')
                    else (case ReplaceWithAvgPool E div_op input view pad tp of
                            Inl e \<Rightarrow> Inl e
                          | Inr final_op \<Rightarrow> Inr (success final_op)))"
    by (simp add: LegalizeAvgPool_matchAndRewrite_def match_rhs_splat_const_def Let_def)
next
  assume "m_Constant (RecursivelyWalkUp [BroadcastInDimOpTy, TransposeOpTy] (getRhs div_op)) = None"
  then have "match_rhs_splat_const E div_op tp view input pad = None"
    by (simp add: match_rhs_splat_const_def)
  with assms show "LegalizeAvgPool_matchAndRewrite E div_op =
                   match_rhs_reduce_window E div_op tp rw view input pad"
    by (simp add: LegalizeAvgPool_matchAndRewrite_def)
next
  fix v assume s: "match_rhs_reduce_window E div_op tp rw view input pad = Inr (success v)"
  then obtain rw_rhs where "getDefiningOp (RecursivelyWalkUp
           [BroadcastInDimOpTy, ReshapeOpTy, TransposeOpTy] (getRhs div_op))
             = Some (mhlo_reduce_window rw_rhs)"
    using match_rhs_reduce_window_success by blast
  then have "m_Constant (RecursivelyWalkUp [BroadcastInDimOpTy, TransposeOpTy] (getRhs div_op))
               = None"
    by (rule reduce_window_not_constant)
  then have "match_rhs_splat_const E div_op tp view input pad = None"
    by (simp add: match_rhs_splat_const_def)
  with assms s show "LegalizeAvgPool_matchAndRewrite E div_op = Inr (success v)"
    by (simp add: LegalizeAvgPool_matchAndRewrite_def)
qed

text \<open>
  A division by a splat 8.0: the constant-divisor case fails it, and the ones-window case on
  it would fail for want of a reduce-window.  The ones-window example: its denominator is no
  constant, and the outcome of the pattern is the ones-window case's success.
\<close>

theorem ones_window_tried_after_constant_divisor_witness:
  "match_lhs ex_Env ex_div_const8 =
     Inr (success (None, ex_rw, ReduceWindowView ex_rw, ex_input, ''VALID'')) \<and>
   m_Constant (RecursivelyWalkUp [BroadcastInDimOpTy, TransposeOpTy] (getRhs ex_div_const8))
     = Some (DenseFPElementsAttr 27 True 8) \<and>
   LegalizeAvgPool_matchAndRewrite ex_Env ex_div_const8 =
     Inr (failure ''Rhs splat const is not equal to window size.'') \<and>
   match_rhs_reduce_window ex_Env ex_div_const8 None ex_rw (ReduceWindowView ex_rw) ex_input
       ''VALID'' = Inr (failure ''Rhs of div op is not a reduce window.'') \<and>
   match_lhs ex_Env ex_div_ones =
     Inr (success (None, ex_rw_same ex_input, ReduceWindowView (ex_rw_same ex_input), ex_input,
                   ''SAME'')) \<and>
   m_Constant (RecursivelyWalkUp [BroadcastInDimOpTy, TransposeOpTy] (getRhs ex_div_ones)) = None \<and>
   LegalizeAvgPool_matchAndRewrite ex_Env ex_div_ones =
     match_rhs_reduce_window ex_Env ex_div_ones None (ex_rw_same ex_input)
       (ReduceWindowView (ex_rw_same ex_input)) ex_input ''SAME'' \<and>
   LegalizeAvgPool_matchAndRewrite ex_Env ex_div_ones =
     Inr (success (Value (f32 [1, 8, 8, 3])
            (Some (tfl_average_pool_2d
               (AveragePool2DOp ex_input 3 3 ''SAME'' 1 1 ''NONE'')))))"
proof -
  have m: "match_lhs ex_Env ex_div_ones =
     Inr (success (None, ex_rw_same ex_input, ReduceWindowView (ex_rw_same ex_input), ex_input,
                   ''SAME''))"
    by (simp add: ex_div_ones_def ex_rw_same_def ex_input_def ex_eval)
  have c: "m_Constant (RecursivelyWalkUp [BroadcastInDimOpTy, TransposeOpTy]
             (getRhs ex_div_ones)) = None"
    by (simp add: ex_div_ones_def m_Constant_def)
  have s: "match_rhs_reduce_window ex_Env ex_div_ones None (ex_rw_same ex_input)
       (ReduceWindowView (ex_rw_same ex_input)) ex_input ''SAME'' =
     Inr (success (Value (f32 [1, 8, 8, 3])
            (Some (tfl_average_pool_2d
               (AveragePool2DOp ex_input 3 3 ''SAME'' 1 1 ''NONE'')))))"
    by (simp add: ex_div_ones_def ex_rw_same_def ex_input_def ex_eval)
  have m': "match_lhs ex_Env ex_div_const8 =
     Inr (success (None, ex_rw, ReduceWindowView ex_rw, ex_input, ''VALID''))"
    by (simp add: ex_div_const8_def ex_rw_def ex_input_def ex_eval)
  have c': "m_Constant (RecursivelyWalkUp [BroadcastInDimOpTy, TransposeOpTy]
              (getRhs ex_div_const8)) = Some (DenseFPElementsAttr 27 True 8)"
    by (simp add: ex_div_const8_def splat_const_def m_Constant_def)
  have w: "\<not> isExactlyValue ex_Env (firstValue (DenseFPElementsAttr 27 True (8::real)))
              (WindowSize (ReduceWindowView ex_rw))"
    by (simp add: ex_rw_def ex_eval)
  from ones_window_tried_after_constant_divisor [OF m'] c' w
  have f: "LegalizeAvgPool_matchAndRewrite ex_Env ex_div_const8 =
     Inr (failure ''Rhs splat const is not equal to window size.'')"
    "match_rhs_reduce_window ex_Env ex_div_const8 None ex_rw (ReduceWindowView ex_rw)
             ex_input ''VALID'' = Inr (failure ''Rhs of div op is not a reduce window.'')"
    by simp_all
  from ones_window_tried_after_constant_divisor [OF m] c s m m' c' f show ?thesis by simp
qed

text \<open>
  C3 as stated fails.  The denominator, a splat 8.0, does not match the constant-divisor
  case for a window of 9 elements.  The ones-window case is not attempted: the pattern
  returns the constant-divisor case's failure, which is not the outcome of the ones-window
  case.
\<close>

theorem ones_window_tried_after_constant_divisor_counterexample:
  "match_lhs ex_Env ex_div_const8 =
     Inr (success (None, ex_rw, ReduceWindowView ex_rw, ex_input, ''VALID'')) \<and>
   match_rhs_splat_const ex_Env ex_div_const8 None (ReduceWindowView ex_rw) ex_input ''VALID'' =
     Some (Inr (failure ''Rhs splat const is not equal to window size.'')) \<and>
   LegalizeAvgPool_matchAndRewrite ex_Env ex_div_const8 =
     Inr (failure ''Rhs splat const is not equal to window size.'') \<and>
   match_rhs_reduce_window ex_Env ex_div_const8 None ex_rw (ReduceWindowView ex_rw) ex_input
       ''VALID'' = Inr (failure ''Rhs of div op is not a reduce window.'') \<and>
   LegalizeAvgPool_matchAndRewrite ex_Env ex_div_const8 \<noteq>
     match_rhs_reduce_window ex_Env ex_div_const8 None ex_rw (ReduceWindowView ex_rw) ex_input
       ''VALID''"
  by (simp add: ex_div_const8_def ex_rw_def ex_input_def ex_eval)

section \<open>Legality and the max-pool pattern\<close>

text \<open>
  C9.  The max-pool legalization pattern reports no match on every reduce-window node,
  and after \<open>PopulateLegalizeReduceWindowPatterns\<close> the legality callbacks registered for
  reduce-window and division nodes exist and answer "unknown" (\<open>None\<close>) on every such node,
  whatever patterns and target the registration started from.
\<close>

theorem max_pool_never_matches_and_legality_unknown:
  "LegalizeReduceWindowMax_matchAndRewrite op = failure [] \<and>
   IsReduceWindowLegal rw = None \<and> IsDivideLegal d = None \<and>
   reduce_window_legality (snd (PopulateLegalizeReduceWindowPatterns ps tgt))
     = Some IsReduceWindowLegal \<and>
   divide_legality (snd (PopulateLegalizeReduceWindowPatterns ps tgt)) = Some IsDivideLegal \<and>
   isLegal (snd (PopulateLegalizeReduceWindowPatterns ps tgt)) (mhlo_reduce_window rw) = None \<and>
   isLegal (snd (PopulateLegalizeReduceWindowPatterns ps tgt)) (mhlo_divide d) = None"
  by (simp add: LegalizeReduceWindowMax_matchAndRewrite_def IsReduceWindowLegal_def
      IsDivideLegal_def PopulateLegalizeReduceWindowPatterns_def isLegal_def)

end
